theory Spec2Isabelle
  imports Complex_Main "HOL-Library.Product_Lexorder" "HOL-Library.Sublist"
begin

section \<open>Character memory system: data model\<close>

text \<open>
  The \<open>memories\<close> collection of the memory architecture document (\<open>mem_id\<close> is its
  \<open>_id\<close>, \<open>mem_type\<close> its \<open>type\<close>).  An \<open>ObjectId\<close> is a natural number and a
  \<open>datetime\<close> is a number of microseconds since the epoch, the resolution of Python's
  \<open>datetime\<close>.  A \<open>float\<close> is a finite IEEE 754 double, given as the real number it
  denotes.  The stored \<open>embedding\<close> field is left out: the scoring code calls
  \<open>embed(memory.content)\<close> and never reads it.
\<close>

datatype memory_type = Fact | Preference | Emotion | Event

type_synonym datetime = int

record memory =
  mem_id :: nat
  user_id :: string
  character_name :: string
  mem_type :: memory_type
  content :: string
  importance :: real
  access_count :: int
  last_accessed :: datetime
  created_at :: datetime
  source_session_id :: string
  source_message_id :: string

section \<open>Double arithmetic\<close>

text \<open>
  Python floats are binary64 numbers.  A finite double is a real of the form
  \<open>m * 2 ^ e\<close> with \<open>\<bar>m\<bar> < 2 ^ 53\<close> and \<open>- 1074 \<le> e\<close>, below \<open>2 ^ 1024\<close> in absolute
  value, and every arithmetic operation returns the exact result rounded to the nearest
  such number, ties to the even mantissa.  \<open>float_round\<close> is that rounding with the
  exponent unbounded above (subnormals included): a result of absolute value \<open>2 ^ 1024\<close>
  or more is an overflow.  \<open>binary_exponent x\<close> is the floor of the binary logarithm of
  \<open>\<bar>x\<bar>\<close>, computed from the bit length \<open>log2_floor\<close> of an integer, and \<open>pow2 e\<close> is
  \<open>2\<close> to the integer power \<open>e\<close>.
\<close>

fun log2_floor :: "nat \<Rightarrow> nat" where
  "log2_floor n = (if n < 2 then 0 else Suc (log2_floor (n div 2)))"

declare log2_floor.simps [simp del]

definition binary_exponent :: "real \<Rightarrow> int" where
  "binary_exponent x =
     (let a = \<bar>x\<bar> in
      if 1 \<le> a then int (log2_floor (nat \<lfloor>a\<rfloor>))
      else - int (Suc (log2_floor (nat (\<lceil>1 / a\<rceil> - 1)))))"

definition round_half_even :: "real \<Rightarrow> int" where
  "round_half_even y =
     (let f = \<lfloor>y\<rfloor>; d = y - of_int f in
      if d < 1 / 2 then f else if 1 / 2 < d then f + 1 else if even f then f else f + 1)"

definition pow2 :: "int \<Rightarrow> real" where
  "pow2 e = (if 0 \<le> e then 2 ^ nat e else 1 / 2 ^ nat (- e))"

definition quantum_exponent :: "real \<Rightarrow> int" where
  "quantum_exponent x = max (binary_exponent x) (- 1022) - 52"

definition float_round :: "real \<Rightarrow> real" where
  "float_round x =
     (if x = 0 then 0
      else of_int (round_half_even (x / pow2 (quantum_exponent x))) * pow2 (quantum_exponent x))"

text \<open>
  The operations of Python that can raise.  \<open>int / int\<close> is the correctly rounded
  quotient and raises \<open>OverflowError\<close> when it is too large for a float.  \<open>x ** y\<close> on
  floats calls the C library's \<open>pow\<close>, taken here to return the correctly rounded power
  of a positive base, and raises \<open>OverflowError\<close> when the result overflows; a result
  that underflows is returned as it is.  Products and sums of floats never raise.
\<close>

datatype py_error = OverflowError | ZeroDivisionError

definition float_result :: "real \<Rightarrow> py_error + real" where
  "float_result x =
     (if 2 ^ 1024 \<le> \<bar>float_round x\<bar> then Inl OverflowError else Inr (float_round x))"

definition int_true_divide :: "int \<Rightarrow> int \<Rightarrow> py_error + real" where
  "int_true_divide a b =
     (if b = 0 then Inl ZeroDivisionError else float_result (real_of_int a / real_of_int b))"

definition float_pow :: "real \<Rightarrow> real \<Rightarrow> py_error + real" where
  "float_pow b y = float_result (b powr y)"

section \<open>Relevance of a memory\<close>

text \<open>
  \<open>(current_time - memory.last_accessed).days\<close>: the difference of two datetimes is a
  \<open>timedelta\<close>, whose \<open>days\<close> field is the floor of the difference in whole days
  (negative differences round towards minus infinity, like \<open>div\<close> on \<open>int\<close>).
\<close>

definition microseconds_per_day :: int where
  "microseconds_per_day = 86400000000"

definition timedelta_days :: "datetime \<Rightarrow> datetime \<Rightarrow> int" where
  "timedelta_days current_time accessed = (current_time - accessed) div microseconds_per_day"

text \<open>
  \<open>calculate_memory_relevance(memory, current_query, current_time)\<close>, statement by
  statement, in the arithmetic of Python: every literal and every operation is rounded
  to a double, and an operation that raises ends the call.  The functions \<open>embed\<close> and
  \<open>cosine_similarity\<close> are not part of the sources, so they are parameters
  (\<open>embed_fn\<close> stands for \<open>embed\<close>, a name HOL already uses).  The similarity and the
  importance are finite doubles; with them, and with the finite power that \<open>**\<close> has
  returned, the four products and three sums stay far from overflow (the weights add up
  to 1), so the two divisions and the power are the operations that can raise.
\<close>

definition calculate_memory_relevance ::
  "(string \<Rightarrow> 'v) \<Rightarrow> ('v \<Rightarrow> 'v \<Rightarrow> real) \<Rightarrow> memory \<Rightarrow> string \<Rightarrow> datetime
     \<Rightarrow> py_error + real" where
  "calculate_memory_relevance embed_fn cosine_similarity memory current_query current_time =
     (let semantic_score = cosine_similarity (embed_fn (content memory)) (embed_fn current_query);
          days_old = timedelta_days current_time (last_accessed memory)
      in case int_true_divide days_old 7 of
           Inl raised \<Rightarrow> Inl raised
         | Inr exponent \<Rightarrow>
             (case float_pow (float_round 0.5) exponent of
                Inl raised \<Rightarrow> Inl raised
              | Inr recency_score \<Rightarrow>
                  (let importance_score = importance memory
                   in case int_true_divide (access_count memory) 10 of
                        Inl raised \<Rightarrow> Inl raised
                      | Inr count_over_10 \<Rightarrow>
                          (let frequency_boost = min count_over_10 (float_round 1.0)
                           in Inr (float_round
                                (float_round
                                   (float_round
                                      (float_round (semantic_score * float_round 0.4)
                                       + float_round (recency_score * float_round 0.2))
                                    + float_round (importance_score * float_round 0.3))
                                 + float_round (frequency_boost * float_round 0.1)))))))"

text \<open>
  The same function with the memory object threaded through as state: Python passes
  \<open>memory\<close> by reference, so a statement of the body could assign to one of its fields.
  Each statement of the source is one binding; none of them writes to \<open>memory\<close>, so the
  object left behind, by a return or by a raise, is the one the last statement left.
\<close>

definition calculate_memory_relevance_st ::
  "(string \<Rightarrow> 'v) \<Rightarrow> ('v \<Rightarrow> 'v \<Rightarrow> real) \<Rightarrow> memory \<Rightarrow> string \<Rightarrow> datetime
     \<Rightarrow> (py_error + real) \<times> memory" where
  "calculate_memory_relevance_st embed_fn cosine_similarity memory current_query current_time =
     (let (semantic_score, memory1) =
            (cosine_similarity (embed_fn (content memory)) (embed_fn current_query), memory);
          (days_old, memory2) = (timedelta_days current_time (last_accessed memory1), memory1);
          (recency, memory3) =
            (case int_true_divide days_old 7 of
               Inl raised \<Rightarrow> Inl raised
             | Inr exponent \<Rightarrow> float_pow (float_round 0.5) exponent, memory2)
      in case recency of
           Inl raised \<Rightarrow> (Inl raised, memory3)
         | Inr recency_score \<Rightarrow>
             (let (importance_score, memory4) = (importance memory3, memory3);
                  (frequency, memory5) = (int_true_divide (access_count memory4) 10, memory4)
              in case frequency of
                   Inl raised \<Rightarrow> (Inl raised, memory5)
                 | Inr count_over_10 \<Rightarrow>
                     (let (frequency_boost, memory6) = (min count_over_10 (float_round 1.0), memory5)
                      in (Inr (float_round
                            (float_round
                               (float_round
                                  (float_round (semantic_score * float_round 0.4)
                                   + float_round (recency_score * float_round 0.2))
                                + float_round (importance_score * float_round 0.3))
                             + float_round (frequency_boost * float_round 0.1))),
                          memory6))))"

subsection \<open>Ranking\<close>





subsection \<open>Sample inputs\<close>

text \<open>
  An embedding into a one-point space, on which every two texts have similarity 1, and a
  memory of full importance, read ten times, last at time 0.
\<close>

definition unit_embed :: "string \<Rightarrow> unit" where
  "unit_embed s = ()"

definition full_similarity :: "unit \<Rightarrow> unit \<Rightarrow> real" where
  "full_similarity u v = 1"

definition teacher_memory :: memory where
  "teacher_memory =
     \<lparr>mem_id = 1, user_id = ''u1'', character_name = ''Batman'', mem_type = Fact,
      content = ''User is a teacher'', importance = 1, access_count = 10,
      last_accessed = 0, created_at = 0,
      source_session_id = ''s1'', source_message_id = ''m1''\<rparr>"

text \<open>The same memory extracted again one day later, under the next id.\<close>

definition teacher_memory_next_day :: memory where
  "teacher_memory_next_day =
     teacher_memory\<lparr>mem_id := 2, created_at := microseconds_per_day\<rparr>"

text \<open>
  The same memory last read 7168 days after time 0, and a memory of importance one half
  that was read three times.
\<close>

definition future_memory :: memory where
  "future_memory = teacher_memory\<lparr>last_accessed := 7168 * microseconds_per_day\<rparr>"

definition casual_memory :: memory where
  "casual_memory = teacher_memory\<lparr>importance := 1 / 2, access_count := 3\<rparr>"

section \<open>Sessions and the short-term buffer\<close>

text \<open>
  The \<open>sessions\<close> collection of the architecture document, with the messages it embeds.
  \<open>ended_at\<close> and \<open>final_summary\<close> are absent while the session is open.  The field
  \<open>last_summarized_at\<close> is not in the document's schema; it is the \<open>lastSummarizedAt\<close>
  of the specification's summarizer contract, the message count at the last rewrite of
  \<open>working_memory\<close>.
\<close>

datatype role = User | Assistant

record message =
  m_role :: role
  m_content :: string
  m_timestamp :: datetime
  m_tokens :: int

record session =
  s_id :: string
  s_user_id :: string
  s_character_name :: string
  started_at :: datetime
  ended_at :: "datetime option"
  message_count :: int
  working_memory :: string
  final_summary :: "string option"
  s_messages :: "message list"
  last_summarized_at :: int

text \<open>
  Modelled from the spec: \<open>get_recent_messages(session_id, max_tokens)\<close> is only called
  in the sources.  The specification describes the section it fills as the remaining raw
  message buffer, most recent first, filling whatever budget remains, and the buffer as
  holding the last messages of the open session up to its capacity.  So the buffer is
  the last \<open>capacity\<close> messages, newest first, and messages are taken from its front as
  long as their \<open>tokens\<close> fit in what is left of \<open>max_tokens\<close>.
\<close>

fun fill_budget :: "int \<Rightarrow> message list \<Rightarrow> message list" where
  "fill_budget max_tokens [] = []"
| "fill_budget max_tokens (m # ms) =
     (if m_tokens m \<le> max_tokens then m # fill_budget (max_tokens - m_tokens m) ms else [])"

definition raw_buffer :: "nat \<Rightarrow> session \<Rightarrow> message list" where
  "raw_buffer capacity sess = take capacity (rev (s_messages sess))"

definition get_recent_messages :: "nat \<Rightarrow> session \<Rightarrow> int \<Rightarrow> message list" where
  "get_recent_messages capacity sess max_tokens = fill_budget max_tokens (raw_buffer capacity sess)"

section \<open>Context assembly\<close>

text \<open>
  The helpers \<open>assemble_context\<close> calls are not part of the sources.  They are the
  fields of a record of functions, next to the tokenizer that counts the tokens of a
  text and the capacity of the short-term buffer.  \<open>'e\<close> is the type of what
  \<open>get_user_entities\<close> returns.
\<close>

record 'e backend =
  get_character_profile :: "string \<Rightarrow> string"
  get_user_entities :: "string \<Rightarrow> string \<Rightarrow> 'e"
  format_user_profile :: "'e \<Rightarrow> string"
  get_last_session_summary :: "string \<Rightarrow> string \<Rightarrow> string option"
  semantic_search :: "string \<Rightarrow> string \<Rightarrow> string \<Rightarrow> nat \<Rightarrow> memory list"
  format_memories :: "memory list \<Rightarrow> string"
  format_messages :: "message list \<Rightarrow> string"
  count_tokens :: "string \<Rightarrow> int"
  buffer_capacity :: nat

text \<open>
  The source builds \<open>context\<close> as a list of strings.  Each string is kept together with
  the number of the step that appended it, so that a section can be told from a text that
  happens to read the same; \<open>map snd\<close> gives the list of the source.
\<close>

datatype section_label =
  CharacterProfile | UserProfile | LastConversation | RelevantMemories | ConversationSoFar
  | RecentMessages

type_synonym context_bundle = "(section_label \<times> string) list"

text \<open>
  \<open>assemble_context(user_id, character, current_message)\<close>, statement by statement.
  \<open>session_message_count\<close> and \<open>session_id\<close> are free names in the source: they stand
  for the open session, which is a parameter here, \<open>get_working_memory(session_id)\<close>
  being its \<open>working_memory\<close>.  \<open>if last_session:\<close> is Python truthiness: \<open>None\<close> and
  the empty string both skip the section.
\<close>

definition assemble_context ::
  "'e backend \<Rightarrow> session \<Rightarrow> string \<Rightarrow> string \<Rightarrow> string \<Rightarrow> context_bundle" where
  "assemble_context b sess uid character current_message =
     (let context = [];
          token_budget = (4000::int);
          context = context @ [(CharacterProfile, get_character_profile b character)];
          token_budget = token_budget - 500;
          user_profile = get_user_entities b uid character;
          context = context @ [(UserProfile, format_user_profile b user_profile)];
          token_budget = token_budget - 200;
          last_session = get_last_session_summary b uid character;
          (context, token_budget) =
            (case last_session of
               None \<Rightarrow> (context, token_budget)
             | Some summary \<Rightarrow>
                 if summary = [] then (context, token_budget)
                 else (context @ [(LastConversation, ''Last conversation: '' @ summary)],
                       token_budget - 200));
          relevant_memories = semantic_search b current_message uid character 5;
          context = context @ [(RelevantMemories, format_memories b relevant_memories)];
          token_budget = token_budget - 300;
          (context, token_budget) =
            (if 10 < message_count sess
             then (context @ [(ConversationSoFar, ''Conversation so far: '' @ working_memory sess)],
                   token_budget - 300)
             else (context, token_budget));
          recent_messages = get_recent_messages (buffer_capacity b) sess token_budget;
          context = context @ [(RecentMessages, format_messages b recent_messages)]
      in context)"

text \<open>The token count of a bundle: the sum of the token counts of its sections.\<close>

definition bundle_tokens :: "'e backend \<Rightarrow> context_bundle \<Rightarrow> int" where
  "bundle_tokens b context = sum_list (map (\<lambda>section. count_tokens b (snd section)) context)"

text \<open>
  What the source leaves of its 4000 tokens for the recent messages: 2500 to 3000,
  depending on the two optional sections.
\<close>

definition message_budget :: "'e backend \<Rightarrow> session \<Rightarrow> string \<Rightarrow> string \<Rightarrow> int" where
  "message_budget b sess uid character =
     4000 - 500 - 200
       - (case get_last_session_summary b uid character of
            None \<Rightarrow> 0 | Some summary \<Rightarrow> if summary = [] then 0 else 200)
       - 300
       - (if 10 < message_count sess then 300 else 0)"

subsection \<open>Sample inputs\<close>

text \<open>
  A tokenizer with one token per character, a backend around a given character profile
  with no earlier session and no stored memories, and an open session with a given
  message count and messages.
\<close>

definition tokens_by_char :: "string \<Rightarrow> int" where
  "tokens_by_char s = int (length s)"

definition sample_backend :: "string \<Rightarrow> unit backend" where
  "sample_backend profile =
     \<lparr>get_character_profile = (\<lambda>character. profile),
      get_user_entities = (\<lambda>uid character. ()),
      format_user_profile = (\<lambda>entities. ''User: Sarah, a teacher''),
      get_last_session_summary = (\<lambda>uid character. None),
      semantic_search = (\<lambda>query uid character limit. []),
      format_memories = (\<lambda>memories. ''''),
      format_messages = (\<lambda>msgs. concat (map m_content msgs)),
      count_tokens = tokens_by_char,
      buffer_capacity = 15\<rparr>"

definition open_session :: "int \<Rightarrow> message list \<Rightarrow> session" where
  "open_session n msgs =
     \<lparr>s_id = ''session_1'', s_user_id = ''u1'', s_character_name = ''Batman'',
      started_at = 0, ended_at = None, message_count = n,
      working_memory = ''User asks about Gotham'', final_summary = None,
      s_messages = msgs, last_summarized_at = 0\<rparr>"

definition oversized_profile :: string where
  "oversized_profile = replicate 4001 (CHR ''x'')"

definition hello_message :: message where
  "hello_message = \<lparr>m_role = User, m_content = ''hello'', m_timestamp = 0, m_tokens = 5\<rparr>"

text \<open>
  The same backend for a user who has talked to the character before: there is a
  summary of the last session and one stored memory.
\<close>

definition returning_backend :: "unit backend" where
  "returning_backend =
     (sample_backend ''I am Batman'')
       \<lparr>get_last_session_summary := (\<lambda>uid character. Some ''We spoke of Gotham''),
        semantic_search := (\<lambda>query uid character limit. take limit [teacher_memory]),
        format_memories := (\<lambda>memories. concat (map content memories))\<rparr>"

section \<open>Working-memory summarizer\<close>

text \<open>
  Words of a text are its maximal runs of characters other than white space.
  \<open>count_words in_word s\<close> counts the words that start in \<open>s\<close>, \<open>in_word\<close> telling
  whether the character before \<open>s\<close> belonged to a word; \<open>take_words n in_word s\<close> is
  the longest prefix of \<open>s\<close> in which at most \<open>n\<close> words start.
\<close>

definition is_space :: "char \<Rightarrow> bool" where
  "is_space c = (c = CHR '' '' \<or> c = CHR 0x09 \<or> c = CHR 0x0A \<or> c = CHR 0x0D)"

fun count_words :: "bool \<Rightarrow> string \<Rightarrow> nat" where
  "count_words in_word [] = 0"
| "count_words in_word (c # cs) =
     (if is_space c then count_words False cs
      else if in_word then count_words True cs
      else Suc (count_words True cs))"

fun take_words :: "nat \<Rightarrow> bool \<Rightarrow> string \<Rightarrow> string" where
  "take_words n in_word [] = []"
| "take_words n in_word (c # cs) =
     (if is_space c then c # take_words n False cs
      else if in_word then c # take_words n True cs
      else (case n of 0 \<Rightarrow> [] | Suc k \<Rightarrow> c # take_words k True cs))"

definition word_count :: "string \<Rightarrow> nat" where
  "word_count s = count_words False s"

definition truncate_words :: "nat \<Rightarrow> string \<Rightarrow> string" where
  "truncate_words n s = take_words n False s"

text \<open>
  Modelled from the spec: the WorkingMemorySummarizer (\<open>summarization.py\<close> of the
  implementation file list) is missing from the sources.  The specification has it
  triggered after every message append, maintaining the summary once the session exceeds
  the raw-buffer capacity, and doing nothing unless
  \<open>message_count - lastSummarizedAt \<ge> 5\<close>.  When it runs, the language model is given
  the previous working memory and the last five messages (the prompt of the document:
  previous summary, new messages), and the new working memory is its answer, bounded to
  100 words.  The language model is the parameter \<open>summarize\<close>.
\<close>

definition append_message :: "session \<Rightarrow> message \<Rightarrow> session" where
  "append_message sess m =
     sess\<lparr>s_messages := s_messages sess @ [m], message_count := message_count sess + 1\<rparr>"

definition last_5_messages :: "session \<Rightarrow> message list" where
  "last_5_messages sess = drop (length (s_messages sess) - 5) (s_messages sess)"

definition summary_due :: "nat \<Rightarrow> session \<Rightarrow> bool" where
  "summary_due capacity sess =
     (int capacity < message_count sess \<and> 5 \<le> message_count sess - last_summarized_at sess)"

definition maybeUpdate ::
  "nat \<Rightarrow> (string \<Rightarrow> message list \<Rightarrow> string) \<Rightarrow> session \<Rightarrow> session" where
  "maybeUpdate capacity summarize sess =
     (if summary_due capacity sess
      then sess\<lparr>working_memory :=
                   truncate_words 100 (summarize (working_memory sess) (last_5_messages sess)),
                 last_summarized_at := message_count sess\<rparr>
      else sess)"

text \<open>
  Modelled from the spec: a session is created on the first message to a character,
  open, with no messages, an empty working memory and nothing summarized yet.
\<close>

definition new_session :: "string \<Rightarrow> string \<Rightarrow> string \<Rightarrow> datetime \<Rightarrow> session" where
  "new_session sid uid character now =
     \<lparr>s_id = sid, s_user_id = uid, s_character_name = character,
      started_at = now, ended_at = None, message_count = 0,
      working_memory = [], final_summary = None,
      s_messages = [], last_summarized_at = 0\<rparr>"

text \<open>
  Sending messages one by one: each is appended and the summarizer is triggered;
  \<open>summarizer_runs\<close> counts how often it rewrote the working memory on the way.
\<close>

fun send_messages ::
  "nat \<Rightarrow> (string \<Rightarrow> message list \<Rightarrow> string) \<Rightarrow> session \<Rightarrow> message list \<Rightarrow> session" where
  "send_messages capacity summarize sess [] = sess"
| "send_messages capacity summarize sess (m # ms) =
     send_messages capacity summarize (maybeUpdate capacity summarize (append_message sess m)) ms"

fun summarizer_runs ::
  "nat \<Rightarrow> (string \<Rightarrow> message list \<Rightarrow> string) \<Rightarrow> session \<Rightarrow> message list \<Rightarrow> nat" where
  "summarizer_runs capacity summarize sess [] = 0"
| "summarizer_runs capacity summarize sess (m # ms) =
     (if summary_due capacity (append_message sess m) then 1 else 0)
     + summarizer_runs capacity summarize
         (maybeUpdate capacity summarize (append_message sess m)) ms"

subsection \<open>Sample inputs\<close>

text \<open>
  A stand-in for the language model that joins the previous summary and the contents of
  the new messages, and sixteen messages to summarize.
\<close>

definition joining_summarizer :: "string \<Rightarrow> message list \<Rightarrow> string" where
  "joining_summarizer previous msgs =
     previous @ concat (map (\<lambda>m. CHR '' '' # m_content m) msgs)"

definition sixteen_messages :: "message list" where
  "sixteen_messages = replicate 16 hello_message"

definition numbered_message :: "nat \<Rightarrow> message" where
  "numbered_message n =
     \<lparr>m_role = User, m_content = ''hello'', m_timestamp = int n, m_tokens = 5\<rparr>"

section \<open>Memory extraction\<close>

text \<open>
  Modelled from the spec: the ExtractionPipeline (\<open>extraction.py\<close> of the implementation
  file list) is missing from the sources, which only give its diagram and the prompt
  asking for facts with an importance score from 1 to 10.  The specification has
  \<open>extract(session, latest_exchange)\<close> (here \<open>extract_memories\<close>) classify the extracted statements, normalise
  the importance to [0,1], and write Memory rows, deduplicated on
  \<open>(source_message_id, content_hash)\<close>: a statement whose key is already stored is
  skipped silently.  The language model that reads the exchange is the parameter
  \<open>extract_facts\<close>, the hash of a content is the parameter \<open>content_hash\<close>, and the
  store is the list of rows of the \<open>memories\<close> collection.  Entity updates are not
  modelled.
\<close>

record exchange =
  x_message_id :: string
  x_user_message :: string
  x_assistant_message :: string

record extracted_fact =
  fact_type :: memory_type
  fact_content :: string
  fact_importance :: nat

definition dedup_key :: "(string \<Rightarrow> nat) \<Rightarrow> memory \<Rightarrow> string \<times> nat" where
  "dedup_key content_hash m = (source_message_id m, content_hash (content m))"

definition next_id :: "memory list \<Rightarrow> nat" where
  "next_id rows = foldr (\<lambda>m n. max (Suc (mem_id m)) n) rows 0"

definition to_memory :: "session \<Rightarrow> exchange \<Rightarrow> datetime \<Rightarrow> nat \<Rightarrow> extracted_fact \<Rightarrow> memory" where
  "to_memory sess x now new_id f =
     \<lparr>mem_id = new_id, user_id = s_user_id sess, character_name = s_character_name sess,
      mem_type = fact_type f, content = fact_content f,
      importance = real (fact_importance f) / 10, access_count = 0,
      last_accessed = now, created_at = now,
      source_session_id = s_id sess, source_message_id = x_message_id x\<rparr>"

definition persist_fact ::
  "(string \<Rightarrow> nat) \<Rightarrow> session \<Rightarrow> exchange \<Rightarrow> datetime \<Rightarrow> memory list \<Rightarrow> extracted_fact
     \<Rightarrow> memory list" where
  "persist_fact content_hash sess x now rows f =
     (let m = to_memory sess x now (next_id rows) f
      in if dedup_key content_hash m \<in> set (map (dedup_key content_hash) rows) then rows
         else rows @ [m])"

definition extract_memories ::
  "(string \<Rightarrow> nat) \<Rightarrow> (exchange \<Rightarrow> extracted_fact list) \<Rightarrow> session \<Rightarrow> exchange \<Rightarrow> datetime
     \<Rightarrow> memory list \<Rightarrow> memory list" where
  "extract_memories content_hash extract_facts sess x now rows =
     foldl (persist_fact content_hash sess x now) rows (extract_facts x)"

subsection \<open>Sample inputs\<close>

text \<open>An exchange from which two facts are extracted, one of them twice.\<close>

definition teacher_exchange :: exchange where
  "teacher_exchange =
     \<lparr>x_message_id = ''m1'', x_user_message = ''I am Sarah, I teach maths'',
      x_assistant_message = ''A noble calling, Sarah.''\<rparr>"

definition teacher_facts :: "exchange \<Rightarrow> extracted_fact list" where
  "teacher_facts x =
     [\<lparr>fact_type = Fact, fact_content = ''name: Sarah'', fact_importance = 8\<rparr>,
      \<lparr>fact_type = Fact, fact_content = ''job: teacher'', fact_importance = 6\<rparr>,
      \<lparr>fact_type = Fact, fact_content = ''name: Sarah'', fact_importance = 8\<rparr>]"

text \<open>The same statements as a second reading of the exchange might return them.\<close>

definition teacher_facts_again :: "exchange \<Rightarrow> extracted_fact list" where
  "teacher_facts_again x =
     [\<lparr>fact_type = Fact, fact_content = ''job: teacher'', fact_importance = 7\<rparr>,
      \<lparr>fact_type = Preference, fact_content = ''name: Sarah'', fact_importance = 9\<rparr>]"

definition length_hash :: "string \<Rightarrow> nat" where
  "length_hash s = length s"

section \<open>Chat store of the web client\<close>

text \<open>
  \<open>chat-store.ts\<close>.  A \<open>ChatMessage\<close> carries the ISO string of the time at which it was
  built; ISO strings of one length compare like the instants they denote, so a timestamp
  is the instant itself, in milliseconds since the epoch.  Of a \<open>Character\<close> the store
  reads only the name, so a character is its name.  The three identifying fields of a
  \<open>ChatSession\<close> are optional in the model, \<open>None\<close> being \<open>undefined\<close>: the store can
  build a session without them (see \<open>clearCurrentChat\<close>).
\<close>

record chat_message =
  cm_role :: role
  cm_content :: string
  cm_timestamp :: int
  cm_character_name :: "string option"

record chat_session =
  characterId :: "string option"
  characterName :: "string option"
  sessionId :: "string option"
  messages :: "chat_message list"
  lastActivity :: int
  memoriesUsed :: nat
  tokensUsed :: nat
  isNewSession :: bool

text \<open>
  \<open>sessions\<close> is a plain JavaScript object.  Reading \<open>sessions[key]\<close> returns the
  session stored under \<open>key\<close> if the object has that property itself, and otherwise what
  it inherits from \<open>Object.prototype\<close>: for each of the names below a function (for
  \<open>__proto__\<close> the prototype object), which is truthy, has no property \<open>messages\<close> or
  \<open>characterId\<close> and no enumerable property of its own.  Any other name reads as
  \<open>undefined\<close>.  So what the store holds as \<open>currentSession\<close> is a session or one of
  these inherited values.  A property key that is \<open>undefined\<close> is the string
  \<open>undefined\<close>.
\<close>

datatype session_value = Session chat_session | Inherited string

definition object_prototype_properties :: "string list" where
  "object_prototype_properties =
     [''constructor'', ''__defineGetter__'', ''__defineSetter__'', ''hasOwnProperty'',
      ''__lookupGetter__'', ''__lookupSetter__'', ''isPrototypeOf'', ''propertyIsEnumerable'',
      ''toString'', ''valueOf'', ''__proto__'', ''toLocaleString'']"

definition get_property :: "(string \<rightharpoonup> chat_session) \<Rightarrow> string \<Rightarrow> session_value option" where
  "get_property obj key =
     (case obj key of
        Some own \<Rightarrow> Some (Session own)
      | None \<Rightarrow> if key \<in> set object_prototype_properties then Some (Inherited key) else None)"

definition property_key :: "string option \<Rightarrow> string" where
  "property_key key = (case key of None \<Rightarrow> ''undefined'' | Some name \<Rightarrow> name)"

record chat_state =
  currentCharacter :: "string option"
  currentSession :: "session_value option"
  sessions :: "string \<rightharpoonup> chat_session"
  isTyping :: bool
  streamingContent :: string
  statusMessage :: string
  error :: "string option"

text \<open>
  \<open>sendMessage\<close> hands four callbacks to \<open>api.streamChat\<close>.  They close over the
  \<open>currentSession\<close> and \<open>currentCharacter\<close> read at the start of the call and over the
  \<open>updatedSession\<close> built in it.  The store of the model is the state of the source
  together with the closures of the streams started so far.
\<close>

record stream_closure =
  captured_currentSession :: chat_session
  captured_currentCharacter :: string
  captured_updatedSession :: chat_session

record store =
  chat :: chat_state
  streams :: "stream_closure list"

definition init_store :: store where
  "init_store =
     \<lparr>chat = \<lparr>currentCharacter = None, currentSession = None, sessions = Map.empty,
              isTyping = False, streamingContent = '''', statusMessage = '''', error = None\<rparr>,
      streams = []\<rparr>"

text \<open>
  \<open>loadCharacterSession(characterId)\<close>.  The id of a new session is built from
  \<open>Date.now()\<close> and \<open>Math.random()\<close>; the built string is the parameter
  \<open>new_session_id\<close>, and \<open>now\<close> is the reading of \<open>new Date()\<close>.
\<close>

definition loadCharacterSession :: "string \<Rightarrow> string \<Rightarrow> int \<Rightarrow> chat_state \<Rightarrow> chat_state" where
  "loadCharacterSession character_id new_session_id now st =
     (case get_property (sessions st) character_id of
        Some existingSession \<Rightarrow> st\<lparr>currentSession := Some existingSession\<rparr>
      | None \<Rightarrow>
          (let newSession =
                 \<lparr>characterId = Some character_id, characterName = Some character_id,
                  sessionId = Some new_session_id, messages = [], lastActivity = now,
                  memoriesUsed = 0, tokensUsed = 0, isNewSession = True\<rparr>
           in st\<lparr>sessions := (sessions st)(character_id \<mapsto> newSession),
                 currentSession := Some (Session newSession)\<rparr>))"

definition setCharacter :: "string \<Rightarrow> string \<Rightarrow> int \<Rightarrow> chat_state \<Rightarrow> chat_state" where
  "setCharacter character new_session_id now st =
     loadCharacterSession character new_session_id now
       (st\<lparr>currentCharacter := Some character, error := None\<rparr>)"

text \<open>
  \<open>sendMessage(message)\<close> up to the call of \<open>api.streamChat\<close>, which returns at once
  and leaves the callbacks behind.  The result is the message of the error the call
  throws, if it throws, and the store it leaves.  Without a current session or character
  the source throws before it touches the state.  When \<open>currentSession\<close> is an inherited
  value, \<open>[...currentSession.messages, userMessage]\<close> spreads \<open>undefined\<close> and throws a
  \<open>TypeError\<close> (its message is the engine's; V8's is used here).  \<open>api.streamChat\<close> can
  itself throw before it issues the request (\<open>localStorage.getItem\<close> does where storage
  is denied): \<open>stream_failure\<close> is the message the \<open>catch\<close> block records for that
  error, if there is one, and then no callback is left behind.  The \<open>catch\<close> block
  records the message in \<open>error\<close>, ends the typing state and throws the error again.  \<open>now\<close> is the reading of \<open>new Date()\<close> for the timestamp of the user message,
  \<open>now'\<close> the one for \<open>lastActivity\<close>.
\<close>

definition not_iterable :: string where
  "not_iterable = ''currentSession.messages is not iterable''"

definition caught :: "string \<Rightarrow> chat_state \<Rightarrow> chat_state" where
  "caught thrown st =
     st\<lparr>isTyping := False, streamingContent := '''', statusMessage := '''', error := Some thrown\<rparr>"

definition sendMessage ::
  "string \<Rightarrow> string option \<Rightarrow> int \<Rightarrow> int \<Rightarrow> store \<Rightarrow> string option \<times> store" where
  "sendMessage message stream_failure now now' s =
     (case (currentSession (chat s), currentCharacter (chat s)) of
        (Some current_session, Some current_character) \<Rightarrow>
          (let st = (chat s)\<lparr>isTyping := True, streamingContent := '''', statusMessage := '''',
                              error := None\<rparr>
           in case current_session of
                Inherited name \<Rightarrow> (Some not_iterable, s\<lparr>chat := caught not_iterable st\<rparr>)
              | Session current \<Rightarrow>
                  (let userMessage =
                         \<lparr>cm_role = User, cm_content = message, cm_timestamp = now,
                          cm_character_name = Some current_character\<rparr>;
                       updatedSession =
                         current\<lparr>messages := messages current @ [userMessage],
                                  lastActivity := now'\<rparr>;
                       st = st\<lparr>sessions :=
                                   (sessions st)(property_key (characterId current) \<mapsto> updatedSession),
                                 currentSession := Some (Session updatedSession)\<rparr>
                   in case stream_failure of
                        Some thrown \<Rightarrow> (Some thrown, s\<lparr>chat := caught thrown st\<rparr>)
                      | None \<Rightarrow>
                          (None,
                           \<lparr>chat = st,
                            streams = streams s @
                              [\<lparr>captured_currentSession = current,
                                captured_currentCharacter = current_character,
                                captured_updatedSession = updatedSession\<rparr>]\<rparr>)))
      | _ \<Rightarrow> (Some ''No active chat session'', s))"

text \<open>The callbacks of one stream: chunk, status, done and error.\<close>

definition onChunk :: "string \<Rightarrow> chat_state \<Rightarrow> chat_state" where
  "onChunk chunk st = st\<lparr>streamingContent := streamingContent st @ chunk\<rparr>"

definition onStatus :: "string \<Rightarrow> chat_state \<Rightarrow> chat_state" where
  "onStatus status st = st\<lparr>statusMessage := status\<rparr>"

text \<open>
  \<open>a || b\<close> on an optional number or string: \<open>undefined\<close>, \<open>0\<close> and the empty string
  fall through to \<open>b\<close>.
\<close>

definition or_number :: "nat option \<Rightarrow> nat \<Rightarrow> nat" where
  "or_number a b = (case a of None \<Rightarrow> b | Some n \<Rightarrow> if n = 0 then b else n)"

definition or_string :: "string option \<Rightarrow> string option \<Rightarrow> string option" where
  "or_string a b = (case a of None \<Rightarrow> b | Some s \<Rightarrow> if s = [] then b else Some s)"

record done_data =
  done_session_id :: "string option"
  done_memories_used :: "nat option"
  done_tokens_used :: "nat option"

definition onDone :: "stream_closure \<Rightarrow> done_data \<Rightarrow> int \<Rightarrow> int \<Rightarrow> chat_state \<Rightarrow> chat_state" where
  "onDone c d now now' st =
     (let assistantMessage =
            \<lparr>cm_role = Assistant, cm_content = streamingContent st, cm_timestamp = now,
             cm_character_name = Some (captured_currentCharacter c)\<rparr>;
          finalSession =
            (captured_updatedSession c)
              \<lparr>sessionId := or_string (done_session_id d) (sessionId (captured_currentSession c)),
               messages := messages (captured_updatedSession c) @ [assistantMessage],
               lastActivity := now',
               memoriesUsed :=
                 or_number (done_memories_used d) (memoriesUsed (captured_currentSession c)),
               tokensUsed := or_number (done_tokens_used d) (tokensUsed (captured_currentSession c)),
               isNewSession := False\<rparr>
      in st\<lparr>sessions :=
              (sessions st)(property_key (characterId (captured_currentSession c)) \<mapsto> finalSession),
            currentSession := Some (Session finalSession),
            isTyping := False, streamingContent := '''', statusMessage := ''''\<rparr>)"

definition onError :: "chat_state \<Rightarrow> chat_state" where
  "onError st =
     st\<lparr>isTyping := False, streamingContent := '''', statusMessage := '''',
        error := Some ''Failed to get response. Please try again.''\<rparr>"

text \<open>
  \<open>clearCurrentChat()\<close>.  Spreading an inherited value copies nothing, and its
  \<open>characterId\<close> is \<open>undefined\<close>: the cleared session then has none of the three
  identifying fields and is stored under the key \<open>undefined\<close>.
\<close>

definition clearCurrentChat :: "int \<Rightarrow> chat_state \<Rightarrow> chat_state" where
  "clearCurrentChat now st =
     (case currentSession st of
        None \<Rightarrow> st
      | Some current_session \<Rightarrow>
          (let spread =
                 (case current_session of
                    Session current \<Rightarrow> current
                  | Inherited name \<Rightarrow>
                      \<lparr>characterId = None, characterName = None, sessionId = None,
                       messages = [], lastActivity = now, memoriesUsed = 0, tokensUsed = 0,
                       isNewSession = True\<rparr>);
               clearedSession =
                 spread\<lparr>messages := [], lastActivity := now, memoriesUsed := 0,
                         tokensUsed := 0, isNewSession := True\<rparr>
           in st\<lparr>sessions := (sessions st)(property_key (characterId spread) \<mapsto> clearedSession),
                 currentSession := Some (Session clearedSession), error := None\<rparr>))"

definition setError :: "string option \<Rightarrow> chat_state \<Rightarrow> chat_state" where
  "setError e st = st\<lparr>error := e\<rparr>"

definition clearError :: "chat_state \<Rightarrow> chat_state" where
  "clearError st = st\<lparr>error := None\<rparr>"

text \<open>
  What can happen to the store: a call of one of its actions, or a callback of the
  \<open>i\<close>-th stream (any number of them, in any order, also after later calls of
  \<open>sendMessage\<close>).  Each event carries the readings of the clock its code takes.  A
  \<open>sendMessage\<close> that throws leaves the store its \<open>catch\<close> block left, and a callback of
  a stream that was never started leaves the store as it is.  The store is created with
  \<open>persist\<close>, which keeps \<open>sessions\<close> and nothing else in local storage: when the page is
  loaded again, the store starts from its initial state with the sessions it had, and the
  streams of the old page are gone.
\<close>

datatype event =
  SetCharacter string string int
  | LoadCharacterSession string string int
  | SendMessage string "string option" int int
  | Chunk nat string
  | Status nat string
  | Done nat done_data int int
  | StreamError nat
  | ClearCurrentChat int
  | SetError "string option"
  | ClearError
  | Reload

fun step :: "event \<Rightarrow> store \<Rightarrow> store" where
  "step (SetCharacter character new_id now) s = s\<lparr>chat := setCharacter character new_id now (chat s)\<rparr>"
| "step (LoadCharacterSession character_id new_id now) s =
     s\<lparr>chat := loadCharacterSession character_id new_id now (chat s)\<rparr>"
| "step (SendMessage message stream_failure now now') s =
     snd (sendMessage message stream_failure now now' s)"
| "step (Chunk i chunk) s =
     (if i < length (streams s) then s\<lparr>chat := onChunk chunk (chat s)\<rparr> else s)"
| "step (Status i status) s =
     (if i < length (streams s) then s\<lparr>chat := onStatus status (chat s)\<rparr> else s)"
| "step (Done i d now now') s =
     (if i < length (streams s) then s\<lparr>chat := onDone (streams s ! i) d now now' (chat s)\<rparr>
      else s)"
| "step (StreamError i) s =
     (if i < length (streams s) then s\<lparr>chat := onError (chat s)\<rparr> else s)"
| "step (ClearCurrentChat now) s = s\<lparr>chat := clearCurrentChat now (chat s)\<rparr>"
| "step (SetError e) s = s\<lparr>chat := setError e (chat s)\<rparr>"
| "step ClearError s = s\<lparr>chat := clearError (chat s)\<rparr>"
| "step Reload s = \<lparr>chat = (chat init_store)\<lparr>sessions := sessions (chat s)\<rparr>, streams = []\<rparr>"

fun run :: "event list \<Rightarrow> store \<Rightarrow> store" where
  "run [] s = s"
| "run (e # evs) s = run evs (step e s)"

text \<open>
  The clock: the readings an event takes, in the order of the source, and the traces
  along which the clock never runs backwards, starting from the reading \<open>t\<close>.
\<close>

fun event_times :: "event \<Rightarrow> int list" where
  "event_times (SetCharacter character new_id now) = [now]"
| "event_times (LoadCharacterSession character_id new_id now) = [now]"
| "event_times (SendMessage message stream_failure now now') = [now, now']"
| "event_times (Done i d now now') = [now, now']"
| "event_times (ClearCurrentChat now) = [now]"
| "event_times e = []"

fun clock_monotone :: "int \<Rightarrow> event list \<Rightarrow> bool" where
  "clock_monotone t [] = True"
| "clock_monotone t (e # evs) =
     (sorted (t # event_times e) \<and> clock_monotone (last (t # event_times e)) evs)"

fun clock_after :: "int \<Rightarrow> event list \<Rightarrow> int" where
  "clock_after t [] = t"
| "clock_after t (e # evs) = clock_after (last (t # event_times e)) evs"

text \<open>
  The invariant: the messages of a session are in timestamp order and none is later than
  the clock; it holds of every session of the store, of the current one and of those the
  closures captured.
\<close>

definition session_ok :: "int \<Rightarrow> chat_session \<Rightarrow> bool" where
  "session_ok t cs =
     (sorted (map cm_timestamp (messages cs)) \<and> (\<forall>m \<in> set (messages cs). cm_timestamp m \<le> t))"

definition store_ok :: "int \<Rightarrow> store \<Rightarrow> bool" where
  "store_ok t s =
     ((\<forall>k cs. sessions (chat s) k = Some cs \<longrightarrow> session_ok t cs)
      \<and> (\<forall>cs. currentSession (chat s) = Some (Session cs) \<longrightarrow> session_ok t cs)
      \<and> (\<forall>c \<in> set (streams s).
            session_ok t (captured_currentSession c) \<and> session_ok t (captured_updatedSession c)))"

subsection \<open>Sample inputs\<close>

text \<open>
  A conversation with Batman: the character is chosen, a message is sent, the answer
  streams in as two chunks and is completed.  The same conversation on a machine whose
  clock is set back while the answer streams in.  And a character named
  \<open>constructor\<close> is chosen and a message is sent.
\<close>

definition batman_done :: done_data where
  "batman_done =
     \<lparr>done_session_id = Some ''srv_42'', done_memories_used = Some 3,
      done_tokens_used = Some 120\<rparr>"

definition batman_chat :: "event list" where
  "batman_chat =
     [SetCharacter ''Batman'' ''session_1000_k3x'' 1000,
      SendMessage ''Who are you?'' None 2000 2001,
      Chunk 0 ''I am '', Chunk 0 ''Batman.'',
      Done 0 batman_done 3000 3001]"

definition clock_set_back_chat :: "event list" where
  "clock_set_back_chat =
     [SetCharacter ''Batman'' ''session_1000_k3x'' 1000,
      SendMessage ''Who are you?'' None 5000 5001,
      Chunk 0 ''I am '', Chunk 0 ''Batman.'',
      Done 0 batman_done 1000 1001]"

definition constructor_chat :: "event list" where
  "constructor_chat =
     [SetCharacter ''constructor'' ''session_1000_k3x'' 1000,
      SendMessage ''Who are you?'' None 2000 2001]"

text \<open>The store the conversation with Batman leaves behind.\<close>

definition batman_store :: store where
  "batman_store =
     (let question = \<lparr>cm_role = User, cm_content = ''Who are you?'', cm_timestamp = 2000,
                       cm_character_name = Some ''Batman''\<rparr>;
          answer = \<lparr>cm_role = Assistant, cm_content = ''I am Batman.'', cm_timestamp = 3000,
                     cm_character_name = Some ''Batman''\<rparr>;
          opened = \<lparr>characterId = Some ''Batman'', characterName = Some ''Batman'',
                     sessionId = Some ''session_1000_k3x'', messages = [], lastActivity = 1000,
                     memoriesUsed = 0, tokensUsed = 0, isNewSession = True\<rparr>;
          asked = opened\<lparr>messages := [question], lastActivity := 2001\<rparr>;
          answered = asked\<lparr>sessionId := Some ''srv_42'', messages := [question, answer],
                            lastActivity := 3001, memoriesUsed := 3, tokensUsed := 120,
                            isNewSession := False\<rparr>
      in \<lparr>chat = \<lparr>currentCharacter = Some ''Batman'', currentSession = Some (Session answered),
                   sessions = [''Batman'' \<mapsto> answered], isTyping = False,
                   streamingContent = '''', statusMessage = '''', error = None\<rparr>,
          streams = [\<lparr>captured_currentSession = opened, captured_currentCharacter = ''Batman'',
                      captured_updatedSession = asked\<rparr>]\<rparr>)"

section \<open>Rounding to doubles\<close>

lemma pow2_powi: "pow2 e = 2 powi e"
  by (simp add: pow2_def power_int_def power_inverse field_simps)

lemma pow2_pos: "0 < pow2 e"
  by (simp add: pow2_powi)

lemma pow2_add: "pow2 (a + b) = pow2 a * pow2 b"
  by (simp add: pow2_powi power_int_add)

lemma pow2_mono: "a \<le> b \<Longrightarrow> pow2 a \<le> pow2 b"
  by (simp add: pow2_powi power_int_increasing)

lemma pow2_strict_mono: "a < b \<Longrightarrow> pow2 a < pow2 b"
  by (simp add: pow2_powi power_int_strict_increasing)

lemma pow2_less_cancel: "pow2 a < pow2 b \<Longrightarrow> a < b"
  using pow2_mono [of b a] by (cases "a < b") auto

lemma pow2_nat: "pow2 (int n) = 2 ^ n"
  by (simp add: pow2_def)

lemma pow2_neg_nat: "pow2 (- int n) = 1 / 2 ^ n"
  by (auto simp add: pow2_def)

lemma log2_floor_bounds: "1 \<le> n \<Longrightarrow> 2 ^ log2_floor n \<le> n \<and> n < 2 * 2 ^ log2_floor n"
proof (induction n rule: log2_floor.induct)
  case (1 n)
  show ?case
  proof (cases "n < 2")
    case True
    with "1.prems" show ?thesis by (simp add: log2_floor.simps)
  next
    case False
    then have h: "1 \<le> n div 2" by simp
    from "1.IH" [OF False h]
    have ih: "2 ^ log2_floor (n div 2) \<le> n div 2" "n div 2 < 2 * 2 ^ log2_floor (n div 2)"
      by simp_all
    have eq: "log2_floor n = Suc (log2_floor (n div 2))"
      using False by (simp add: log2_floor.simps)
    have "2 * (n div 2) \<le> n" "n < 2 * (n div 2) + 2" by presburger+
    with ih show ?thesis unfolding eq power_Suc by linarith
  qed
qed

lemma nat_bounds_real:
  assumes "2 ^ l \<le> n \<and> n < 2 * 2 ^ l"
  shows "(2::real) ^ l \<le> real n \<and> real n + 1 \<le> 2 * 2 ^ l"
proof -
  have "real (2 ^ l) \<le> real n" using assms by (simp only: of_nat_le_iff)
  moreover have "real (n + 1) \<le> real (2 * 2 ^ l)" using assms by (simp only: of_nat_le_iff) simp
  ultimately show ?thesis by simp
qed

lemma binary_exponent_bounds:
  assumes "x \<noteq> 0"
  shows "pow2 (binary_exponent x) \<le> \<bar>x\<bar> \<and> \<bar>x\<bar> < pow2 (binary_exponent x + 1)"
proof (cases "1 \<le> \<bar>x\<bar>")
  case True
  define N where "N = nat \<lfloor>\<bar>x\<bar>\<rfloor>"
  have N1: "1 \<le> N" using True by (simp add: N_def le_nat_floor)
  have be: "binary_exponent x = int (log2_floor N)"
    using True by (simp add: binary_exponent_def N_def)
  have rN: "real N \<le> \<bar>x\<bar>" "\<bar>x\<bar> < real N + 1"
    unfolding N_def using True by linarith+
  have "(2::real) ^ log2_floor N \<le> real N" "real N + 1 \<le> 2 * 2 ^ log2_floor N"
    using nat_bounds_real [OF log2_floor_bounds [OF N1]] by simp_all
  with rN have "2 ^ log2_floor N \<le> \<bar>x\<bar>" "\<bar>x\<bar> < 2 * 2 ^ log2_floor N"
    by linarith+
  then show ?thesis
    unfolding be pow2_add pow2_nat by (simp add: pow2_def)
next
  case False
  define u where "u = 1 / \<bar>x\<bar>"
  have a: "0 < \<bar>x\<bar>" "\<bar>x\<bar> < 1" using assms False by simp_all
  then have u1: "1 < u" by (simp add: u_def)
  define K where "K = nat (\<lceil>u\<rceil> - 1)"
  have K1: "1 \<le> K" using u1 unfolding K_def by linarith
  have rK: "real K < u" "u \<le> real K + 1"
    unfolding K_def using u1 by linarith+
  have be: "binary_exponent x = - int (Suc (log2_floor K))"
    using False by (simp add: binary_exponent_def K_def u_def)
  have b: "(2::real) ^ log2_floor K \<le> real K" "real K + 1 \<le> 2 * 2 ^ log2_floor K"
    using nat_bounds_real [OF log2_floor_bounds [OF K1]] by simp_all
  have lo: "1 / (2 * 2 ^ log2_floor K) \<le> \<bar>x\<bar>"
  proof -
    have "u \<le> 2 * 2 ^ log2_floor K" using rK b by linarith
    then show ?thesis using a unfolding u_def by (simp add: field_simps)
  qed
  have hi: "\<bar>x\<bar> < 1 / 2 ^ log2_floor K"
  proof -
    have "2 ^ log2_floor K < u" using rK b by linarith
    then show ?thesis using a unfolding u_def by (simp add: field_simps)
  qed
  have e1: "pow2 (- int (Suc (log2_floor K))) = 1 / (2 * 2 ^ log2_floor K)"
    by (simp only: pow2_neg_nat) simp
  have e2: "pow2 (- int (Suc (log2_floor K)) + 1) = 1 / 2 ^ log2_floor K"
    using pow2_neg_nat [of "log2_floor K"] by simp
  show ?thesis unfolding be e1 e2 using lo hi by simp
qed

lemma binary_exponent_mono:
  assumes "0 < x" "x \<le> y"
  shows "binary_exponent x \<le> binary_exponent y"
proof -
  have "pow2 (binary_exponent x) \<le> x" using binary_exponent_bounds [of x] assms by simp
  moreover have "y < pow2 (binary_exponent y + 1)" using binary_exponent_bounds [of y] assms by simp
  ultimately have "pow2 (binary_exponent x) < pow2 (binary_exponent y + 1)" using assms by linarith
  then show ?thesis using pow2_less_cancel by fastforce
qed

lemma binary_exponent_less:
  assumes "x \<noteq> 0" "\<bar>x\<bar> < pow2 k"
  shows "binary_exponent x < k"
proof -
  have "pow2 (binary_exponent x) \<le> \<bar>x\<bar>" using binary_exponent_bounds [OF assms(1)] by simp
  with assms(2) have "pow2 (binary_exponent x) < pow2 k" by linarith
  then show ?thesis by (rule pow2_less_cancel)
qed

lemma round_half_even_le: "y \<le> of_int n \<Longrightarrow> round_half_even y \<le> n"
  unfolding round_half_even_def Let_def by (auto split: if_splits) linarith+

lemma round_half_even_ge: "of_int n \<le> y \<Longrightarrow> n \<le> round_half_even y"
  unfolding round_half_even_def Let_def by (auto split: if_splits) linarith+

lemma round_half_even_int: "round_half_even (of_int n) = n"
  by (simp add: round_half_even_def)

lemma pow2_diff_int: "a \<le> b \<Longrightarrow> pow2 b = of_int (2 ^ nat (b - a)) * pow2 a"
proof -
  assume "a \<le> b"
  then have "pow2 (b - a) = of_int (2 ^ nat (b - a))" by (simp add: pow2_def)
  moreover have "pow2 b = pow2 (b - a) * pow2 a" using pow2_add [of "b - a" a] by simp
  ultimately show ?thesis by simp
qed

lemma float_round_quantum:
  "x \<noteq> 0 \<Longrightarrow> float_round x
     = of_int (round_half_even (x / pow2 (quantum_exponent x))) * pow2 (quantum_exponent x)"
  by (simp add: float_round_def)

lemma quantum_exponent_mono: "0 < x \<Longrightarrow> x \<le> y \<Longrightarrow> quantum_exponent x \<le> quantum_exponent y"
  using binary_exponent_mono [of x y] by (simp add: quantum_exponent_def)

lemma float_round_nonneg: "0 \<le> x \<Longrightarrow> 0 \<le> float_round x"
proof (cases "x = 0")
  case True
  then show ?thesis by (simp add: float_round_def)
next
  case False
  assume "0 \<le> x"
  then have "of_int 0 \<le> x / pow2 (quantum_exponent x)"
    using pow2_pos [of "quantum_exponent x"] by (simp add: zero_le_divide_iff less_imp_le)
  then have "0 \<le> round_half_even (x / pow2 (quantum_exponent x))" by (rule round_half_even_ge)
  then show ?thesis
    using pow2_pos [of "quantum_exponent x"] by (simp add: float_round_quantum [OF False])
qed

lemma float_round_nonpos: "x \<le> 0 \<Longrightarrow> float_round x \<le> 0"
proof (cases "x = 0")
  case True
  then show ?thesis by (simp add: float_round_def)
next
  case False
  assume "x \<le> 0"
  then have "x / pow2 (quantum_exponent x) \<le> of_int 0"
    using pow2_pos [of "quantum_exponent x"] by (simp add: divide_nonpos_pos)
  then have "round_half_even (x / pow2 (quantum_exponent x)) \<le> 0" by (rule round_half_even_le)
  then show ?thesis
    using pow2_pos [of "quantum_exponent x"]
    by (simp add: float_round_quantum [OF False] mult_nonpos_nonneg)
qed

lemma float_round_le_pos:
  assumes "0 < x" "x \<le> d" "float_round d = d"
  shows "float_round x \<le> d"
proof -
  let ?ex = "quantum_exponent x" and ?ed = "quantum_exponent d"
  have d0: "d \<noteq> 0" and x0: "x \<noteq> 0" using assms by auto
  have le: "?ex \<le> ?ed" using assms by (intro quantum_exponent_mono)
  define k where "k = round_half_even (d / pow2 ?ed)"
  have d: "d = of_int k * pow2 ?ed"
    using float_round_quantum [OF d0] assms(3) by (simp add: k_def)
  have "d = of_int (k * 2 ^ nat (?ed - ?ex)) * pow2 ?ex"
    using pow2_diff_int [OF le] d by simp
  then have dq: "d / pow2 ?ex = of_int (k * 2 ^ nat (?ed - ?ex))"
    using pow2_pos [of ?ex] by (simp add: field_simps)
  have "x / pow2 ?ex \<le> d / pow2 ?ex"
    using assms(2) pow2_pos [of ?ex] by (simp add: divide_right_mono)
  then have "round_half_even (x / pow2 ?ex) \<le> k * 2 ^ nat (?ed - ?ex)"
    unfolding dq by (rule round_half_even_le)
  then have "of_int (round_half_even (x / pow2 ?ex)) * pow2 ?ex
      \<le> of_int (k * 2 ^ nat (?ed - ?ex)) * pow2 ?ex"
    using pow2_pos [of ?ex] by (simp only: mult_le_cancel_right_pos of_int_le_iff)
  also have "\<dots> = d" using dq pow2_pos [of ?ex] by (simp add: field_simps)
  finally show ?thesis by (simp add: float_round_quantum [OF x0])
qed

lemma float_round_le:
  assumes "x \<le> d" "0 < d" "float_round d = d"
  shows "float_round x \<le> d"
proof (cases "0 < x")
  case True
  then show ?thesis using assms by (intro float_round_le_pos)
next
  case False
  then have "float_round x \<le> 0" by (intro float_round_nonpos) simp
  with assms(2) show ?thesis by simp
qed

lemma float_round_ge:
  assumes "0 < d" "d \<le> x" "float_round d = d"
  shows "d \<le> float_round x"
proof -
  let ?ex = "quantum_exponent x" and ?ed = "quantum_exponent d"
  have d0: "d \<noteq> 0" and x0: "x \<noteq> 0" and xpos: "0 < x" using assms by auto
  have le: "?ed \<le> ?ex" using assms by (intro quantum_exponent_mono)
  show ?thesis
  proof (cases "?ed = ?ex")
    case True
    define k where "k = round_half_even (d / pow2 ?ed)"
    have d: "d = of_int k * pow2 ?ex"
      using float_round_quantum [OF d0] assms(3) True by (simp add: k_def)
    then have dq: "d / pow2 ?ex = of_int k" using pow2_pos [of ?ex] by (simp add: field_simps)
    have "d / pow2 ?ex \<le> x / pow2 ?ex"
      using assms(2) pow2_pos [of ?ex] by (simp add: divide_right_mono)
    then have "k \<le> round_half_even (x / pow2 ?ex)"
      unfolding dq by (rule round_half_even_ge)
    then have "of_int k * pow2 ?ex \<le> of_int (round_half_even (x / pow2 ?ex)) * pow2 ?ex"
      using pow2_pos [of ?ex] by (simp only: mult_le_cancel_right_pos of_int_le_iff)
    then show ?thesis using d by (simp add: float_round_quantum [OF x0])
  next
    case False
    with le have lt: "?ed < ?ex" by simp
    then have bx: "- 1022 < binary_exponent x" "binary_exponent d < binary_exponent x"
      by (simp_all add: quantum_exponent_def max_def split: if_splits)
    then have ex: "?ex = binary_exponent x - 52" by (simp add: quantum_exponent_def)
    have "d < pow2 (binary_exponent d + 1)" using binary_exponent_bounds [OF d0] assms(1) by simp
    also have "\<dots> \<le> pow2 (binary_exponent x)" using bx by (intro pow2_mono) simp
    finally have dlt: "d < pow2 (binary_exponent x)" .
    have px: "pow2 (binary_exponent x) \<le> x" using binary_exponent_bounds [OF x0] xpos by simp
    have split: "pow2 (binary_exponent x) = of_int (2 ^ 52) * pow2 ?ex"
      using pow2_diff_int [of ?ex "binary_exponent x"] by (simp add: ex)
    then have "of_int (2 ^ 52) \<le> x / pow2 ?ex"
      using px pow2_pos [of ?ex] by (simp add: field_simps)
    then have "2 ^ 52 \<le> round_half_even (x / pow2 ?ex)" by (rule round_half_even_ge)
    then have "of_int (2 ^ 52) * pow2 ?ex \<le> of_int (round_half_even (x / pow2 ?ex)) * pow2 ?ex"
      using pow2_pos [of ?ex] by (simp only: mult_le_cancel_right_pos of_int_le_iff)
    then have "pow2 (binary_exponent x) \<le> float_round x"
      using split by (simp add: float_round_quantum [OF x0])
    with dlt show ?thesis by simp
  qed
qed

lemma round_half_even_minus: "round_half_even (- y) = - round_half_even y"
proof (cases "y = of_int \<lfloor>y\<rfloor>")
  case True
  then have "- y = of_int (- \<lfloor>y\<rfloor>)" by simp
  then have "round_half_even (- y) = - \<lfloor>y\<rfloor>" by (simp only: round_half_even_int)
  moreover have "round_half_even y = \<lfloor>y\<rfloor>" using True round_half_even_int [of "\<lfloor>y\<rfloor>"] by simp
  ultimately show ?thesis by simp
next
  case False
  then have "of_int \<lfloor>y\<rfloor> < y" "y < of_int \<lfloor>y\<rfloor> + 1" by linarith+
  then have fl: "\<lfloor>- y\<rfloor> = - \<lfloor>y\<rfloor> - 1" by linarith
  show ?thesis
    unfolding round_half_even_def Let_def fl by (auto simp add: algebra_simps)
qed

lemma float_round_minus: "float_round (- x) = - float_round x"
proof (cases "x = 0")
  case True
  then show ?thesis by (simp add: float_round_def)
next
  case False
  have q: "quantum_exponent (- x) = quantum_exponent x"
    by (simp add: quantum_exponent_def binary_exponent_def)
  show ?thesis
    using False round_half_even_minus [of "x / pow2 (quantum_exponent x)"]
    by (simp add: float_round_quantum q)
qed

lemma float_round_representable:
  assumes "\<bar>m\<bar> < 2 ^ 53" "- 1074 \<le> e"
  shows "float_round (of_int m * pow2 e) = of_int m * pow2 e"
proof (cases "m = 0")
  case True
  then show ?thesis by (simp add: float_round_def)
next
  case False
  let ?x = "of_int m * pow2 e"
  have x0: "?x \<noteq> 0" using False pow2_pos [of e] by simp
  have "\<bar>?x\<bar> = of_int \<bar>m\<bar> * pow2 e" using pow2_pos [of e] by (simp add: abs_mult)
  also have "\<dots> < of_int (2 ^ 53) * pow2 e"
    using assms(1) pow2_pos [of e] by (simp only: mult_less_cancel_right_pos of_int_less_iff)
  also have "\<dots> = pow2 (53 + e)" unfolding pow2_add by (simp add: pow2_def)
  finally have "binary_exponent ?x < 53 + e" by (rule binary_exponent_less [OF x0])
  with assms(2) have le: "quantum_exponent ?x \<le> e" by (simp add: quantum_exponent_def)
  have "?x = of_int (m * 2 ^ nat (e - quantum_exponent ?x)) * pow2 (quantum_exponent ?x)"
    using pow2_diff_int [OF le] by simp
  then have "?x / pow2 (quantum_exponent ?x) = of_int (m * 2 ^ nat (e - quantum_exponent ?x))"
    using pow2_pos [of "quantum_exponent ?x"] by (simp add: field_simps)
  then have "round_half_even (?x / pow2 (quantum_exponent ?x)) = m * 2 ^ nat (e - quantum_exponent ?x)"
    by (simp only: round_half_even_int)
  then show ?thesis
    using pow2_diff_int [OF le] by (simp add: float_round_quantum [OF x0])
qed

subsection \<open>Values of the rounding\<close>

lemmas float_round_defs =
  float_round_def quantum_exponent_def binary_exponent_def round_half_even_def pow2_def
  log2_floor.simps Let_def

lemma float_round_literals:
  "float_round (2 / 5) = 3602879701896397 / 9007199254740992"
  "float_round (1 / 5) = 3602879701896397 / 18014398509481984"
  "float_round (3 / 10) = 5404319552844595 / 18014398509481984"
  "float_round (1 / 10) = 3602879701896397 / 36028797018963968"
  "float_round (1 / 2) = 1 / 2" "float_round 0 = 0" "float_round 1 = 1"
  by (simp_all add: float_round_defs)

lemma float_round_products:
  "float_round (3602879701896397 / 9007199254740992) = 3602879701896397 / 9007199254740992"
  "float_round (3602879701896397 / 18014398509481984) = 3602879701896397 / 18014398509481984"
  "float_round (5404319552844595 / 18014398509481984) = 5404319552844595 / 18014398509481984"
  "float_round (3602879701896397 / 36028797018963968) = 3602879701896397 / 36028797018963968"
  by (simp_all add: float_round_defs)

lemma float_round_sums:
  "float_round (10808639105689191 / 18014398509481984) = 1351079888211149 / 2251799813685248"
  "float_round (16212958658533787 / 18014398509481984) = 4053239664633447 / 4503599627370496"
  "float_round (36028797018963973 / 36028797018963968) = 4503599627370497 / 4503599627370496"
  by (simp_all add: float_round_defs)

lemma float_round_partial_sums:
  "float_round (1351079888211149 / 2251799813685248) = 1351079888211149 / 2251799813685248"
  "float_round (4053239664633447 / 4503599627370496) = 4053239664633447 / 4503599627370496"
  "float_round (4503599627370497 / 4503599627370496) = 4503599627370497 / 4503599627370496"
  by (simp_all add: float_round_defs)

lemma float_round_between:
  "0 \<le> x \<Longrightarrow> x \<le> d \<Longrightarrow> 0 < d \<Longrightarrow> float_round d = d
     \<Longrightarrow> 0 \<le> float_round x \<and> float_round x \<le> d"
  by (simp add: float_round_nonneg float_round_le)

text \<open>
  The weighted sum of four components between 0 and 1, each product and each sum
  rounded: it is not negative and at most one unit in the last place above 1.
\<close>

lemma weighted_sum_bounds:
  assumes "0 \<le> s" "s \<le> 1" "0 \<le> r" "r \<le> 1" "0 \<le> i" "i \<le> 1" "0 \<le> f" "f \<le> 1"
  shows "0 \<le> float_round
           (float_round
              (float_round (float_round (s * float_round 0.4) + float_round (r * float_round 0.2))
               + float_round (i * float_round 0.3))
            + float_round (f * float_round 0.1))
       \<and> float_round
           (float_round
              (float_round (float_round (s * float_round 0.4) + float_round (r * float_round 0.2))
               + float_round (i * float_round 0.3))
            + float_round (f * float_round 0.1)) \<le> 1 + 1 / 2 ^ 52"
proof -
  define c4 c2 c3 c1 :: real
    where "c4 = 3602879701896397 / 9007199254740992"
      and "c2 = 3602879701896397 / 18014398509481984"
      and "c3 = 5404319552844595 / 18014398509481984"
      and "c1 = 3602879701896397 / 36028797018963968"
  note c = c4_def c2_def c3_def c1_def
  have lit: "float_round 0.4 = c4" "float_round 0.2 = c2" "float_round 0.3 = c3"
      "float_round 0.1 = c1"
    by (simp_all add: float_round_literals c)
  have p1: "0 \<le> float_round (s * c4) \<and> float_round (s * c4) \<le> c4"
    using assms(1,2) by (intro float_round_between) (simp_all add: c float_round_products)
  have p2: "0 \<le> float_round (r * c2) \<and> float_round (r * c2) \<le> c2"
    using assms(3,4) by (intro float_round_between) (simp_all add: c float_round_products)
  have p3: "0 \<le> float_round (i * c3) \<and> float_round (i * c3) \<le> c3"
    using assms(5,6) by (intro float_round_between) (simp_all add: c float_round_products)
  have p4: "0 \<le> float_round (f * c1) \<and> float_round (f * c1) \<le> c1"
    using assms(7,8) by (intro float_round_between) (simp_all add: c float_round_products)
  define t1 where "t1 = float_round (float_round (s * c4) + float_round (r * c2))"
  have t1: "0 \<le> t1 \<and> t1 \<le> 1351079888211149 / 2251799813685248"
    unfolding t1_def using p1 p2
    by (intro float_round_between) (simp_all add: c float_round_partial_sums)
  define t2 where "t2 = float_round (t1 + float_round (i * c3))"
  have t2: "0 \<le> t2 \<and> t2 \<le> 4053239664633447 / 4503599627370496"
    unfolding t2_def using t1 p3
    by (intro float_round_between) (simp_all add: c float_round_partial_sums)
  have t3: "0 \<le> float_round (t2 + float_round (f * c1))
      \<and> float_round (t2 + float_round (f * c1)) \<le> 4503599627370497 / 4503599627370496"
    using t2 p4
    by (intro float_round_between) (simp_all add: c float_round_partial_sums)
  then show ?thesis
    unfolding lit t2_def t1_def by simp
qed

subsection \<open>Where the divisions and the power stay finite\<close>

lemma float_round_abs_le:
  assumes "\<bar>x\<bar> \<le> d" "0 < d" "float_round d = d"
  shows "\<bar>float_round x\<bar> \<le> d"
proof -
  have "float_round x \<le> d" using assms by (intro float_round_le) simp_all
  moreover have "float_round (- x) \<le> d" using assms by (intro float_round_le) simp_all
  ultimately show ?thesis by (simp add: float_round_minus abs_le_iff)
qed

lemma float_round_le_neg:
  assumes "x \<le> - d" "0 < d" "float_round d = d"
  shows "float_round x \<le> - d"
  using float_round_ge [of d "- x"] assms by (simp add: float_round_minus)

lemma float_round_ge_neg:
  assumes "- d \<le> x" "0 < d" "float_round d = d"
  shows "- d \<le> float_round x"
  using float_round_le [of "- x" d] assms by (simp add: float_round_minus)

lemma float_round_large:
  "float_round (2 ^ 1023) = 2 ^ 1023"
  "float_round (2 ^ 1024) = 2 ^ 1024"
  "float_round (15 * 2 ^ 1020) = 15 * 2 ^ 1020"
  "float_round 1024 = 1024"
  "float_round (8191 / 8) = 8191 / 8"
  using float_round_representable [of 1 1023] float_round_representable [of 1 1024]
    float_round_representable [of 15 1020] float_round_representable [of 1 10]
    float_round_representable [of 8191 "- 3"]
  by (simp_all add: pow2_def)

lemma half_powr_minus: "(1 / 2 :: real) powr (- a) = 2 powr a"
proof -
  have "(1 / 2 :: real) = 2 powr (- 1)" by (simp add: powr_minus_divide)
  then have "(1 / 2 :: real) powr (- a) = (2 powr (- 1)) powr (- a)" by simp
  then show ?thesis by (simp only: powr_powr) simp
qed

lemma two_powr_seven_eighths: "(2 :: real) powr (7 / 8) \<le> 15 / 8"
proof -
  have "(2 :: real) powr (7 / 8) = (2 powr 7) powr (1 / 8)" by (simp only: powr_powr) simp
  also have "\<dots> \<le> ((15 / 8) powr 8) powr (1 / 8)" by (intro powr_mono2) (simp_all add: power_divide)
  also have "\<dots> = 15 / 8" by (simp only: powr_powr) simp
  finally show ?thesis .
qed

lemma recency_overflow:
  assumes "x \<le> - 1024"
  shows "2 ^ 1024 \<le> float_round ((1 / 2) powr x)"
proof -
  have "(1 / 2 :: real) powr (- 1024) \<le> (1 / 2) powr x"
    using assms by (intro powr_mono') simp_all
  moreover have "(1 / 2 :: real) powr (- 1024) = 2 ^ 1024"
    by (simp only: half_powr_minus) simp
  ultimately have "(2 :: real) ^ 1024 \<le> (1 / 2) powr x" by simp
  then show ?thesis
    using float_round_ge [of "2 ^ 1024" "(1 / 2) powr x"] float_round_large(2) by simp
qed

lemma recency_finite:
  assumes "- (8191 / 8) \<le> x"
  shows "0 \<le> float_round ((1 / 2) powr x) \<and> float_round ((1 / 2) powr x) \<le> 15 * 2 ^ 1020"
proof -
  have "(1 / 2 :: real) powr x \<le> (1 / 2) powr (- (8191 / 8))"
    using assms by (intro powr_mono') simp_all
  also have "\<dots> = 2 powr (1023 + 7 / 8)" by (simp only: half_powr_minus) simp
  also have "\<dots> = 2 ^ 1023 * 2 powr (7 / 8)" by (simp only: powr_add) simp
  also have "\<dots> \<le> 2 ^ 1023 * (15 / 8)"
    by (intro mult_left_mono two_powr_seven_eighths) simp
  also have "\<dots> = 15 * 2 ^ 1020" by simp
  finally have "(1 / 2 :: real) powr x \<le> 15 * 2 ^ 1020" .
  then show ?thesis
    using float_round_between [of "(1 / 2) powr x" "15 * 2 ^ 1020"] float_round_large(3)
    by simp
qed

lemma recency_unit:
  assumes "0 \<le> x"
  shows "0 \<le> float_round ((1 / 2) powr x) \<and> float_round ((1 / 2) powr x) \<le> 1"
proof -
  have "(1 / 2 :: real) powr x \<le> 1" using assms by (intro powr_le1) simp_all
  then show ?thesis by (intro float_round_between) (simp_all add: float_round_literals)
qed

lemma exponent_low:
  assumes "d \<le> - 7168"
  shows "float_round (real_of_int d / 7) \<le> - 1024"
proof -
  have "real_of_int d \<le> - 7168" using assms by linarith
  then have "real_of_int d / 7 \<le> - 1024" by simp
  then show ?thesis by (intro float_round_le_neg) (simp_all add: float_round_large)
qed

lemma exponent_mid:
  assumes "- 7168 < d"
  shows "- (8191 / 8) \<le> float_round (real_of_int d / 7)"
proof -
  have "- 7167 \<le> real_of_int d" using assms by linarith
  then have "- (8191 / 8) \<le> real_of_int d / 7" by simp
  then show ?thesis by (intro float_round_ge_neg) (simp_all add: float_round_large)
qed

lemma quotient_finite:
  assumes "\<bar>d\<bar> \<le> 2 ^ 1023" "1 \<le> k"
  shows "\<bar>float_round (real_of_int d / k)\<bar> \<le> 2 ^ 1023"
proof -
  have "real_of_int \<bar>d\<bar> \<le> real_of_int (2 ^ 1023)" using assms(1) by (simp only: of_int_le_iff)
  then have "\<bar>real_of_int d\<bar> \<le> 2 ^ 1023" by simp
  moreover have "\<bar>real_of_int d / k\<bar> \<le> \<bar>real_of_int d\<bar>"
    using assms(2) mult_right_mono [of 1 k "\<bar>real_of_int d\<bar>"] by (simp add: field_simps)
  ultimately have "\<bar>real_of_int d / k\<bar> \<le> 2 ^ 1023" by linarith
  then show ?thesis
    using float_round_abs_le [of "real_of_int d / k" "2 ^ 1023"] float_round_large(1) by simp
qed

subsection \<open>The call, case by case\<close>

lemma relevance_cases:
  "calculate_memory_relevance embed_fn cosine_similarity memory current_query current_time =
     (let exponent =
            float_round (real_of_int (timedelta_days current_time (last_accessed memory)) / 7);
          recency_score = float_round ((1 / 2) powr exponent);
          count_over_10 = float_round (real_of_int (access_count memory) / 10)
      in if 2 ^ 1024 \<le> \<bar>exponent\<bar> \<or> 2 ^ 1024 \<le> \<bar>recency_score\<bar>
            \<or> 2 ^ 1024 \<le> \<bar>count_over_10\<bar>
         then Inl OverflowError
         else Inr (float_round
                (float_round
                   (float_round
                      (float_round
                         (cosine_similarity (embed_fn (content memory)) (embed_fn current_query)
                          * float_round 0.4)
                       + float_round (recency_score * float_round 0.2))
                    + float_round (importance memory * float_round 0.3))
                 + float_round (min count_over_10 1 * float_round 0.1))))"
  by (simp add: calculate_memory_relevance_def int_true_divide_def float_pow_def
      float_result_def float_round_literals Let_def)


lemma timedelta_days_floor:
  "timedelta_days current_time accessed
     = \<lfloor>real_of_int (current_time - accessed) / 86400000000\<rfloor>"
  using floor_divide_of_int_eq [of "current_time - accessed" 86400000000, where ?'a = real]
  by (simp add: timedelta_days_def microseconds_per_day_def)

lemma recency_overflow_iff:
  "2 ^ 1024 \<le> \<bar>float_round ((1 / 2) powr float_round (real_of_int d / 7))\<bar> \<longleftrightarrow> d \<le> - 7168"
proof (cases "d \<le> - 7168")
  case True
  then have "2 ^ 1024 \<le> float_round ((1 / 2) powr float_round (real_of_int d / 7))"
    by (intro recency_overflow exponent_low)
  with True show ?thesis by linarith
next
  case False
  then have "- 7168 < d" by simp
  then have "0 \<le> float_round ((1 / 2) powr float_round (real_of_int d / 7))
      \<and> float_round ((1 / 2) powr float_round (real_of_int d / 7)) \<le> 15 * 2 ^ 1020"
    by (intro recency_finite exponent_mid)
  moreover have "(15 :: real) * 2 ^ 1020 < 2 ^ 1024" by simp
  ultimately have "\<not> 2 ^ 1024 \<le> \<bar>float_round ((1 / 2) powr float_round (real_of_int d / 7))\<bar>"
    by linarith
  with False show ?thesis by simp
qed

lemma quotient_below_overflow:
  assumes "\<bar>d\<bar> \<le> 2 ^ 1023" "1 \<le> k"
  shows "\<bar>float_round (real_of_int d / k)\<bar> < 2 ^ 1024"
proof -
  have "\<bar>float_round (real_of_int d / k)\<bar> \<le> 2 ^ 1023" using assms by (rule quotient_finite)
  moreover have "(2 :: real) ^ 1023 < 2 ^ 1024" by simp
  ultimately show ?thesis by linarith
qed

subsection \<open>Values at the sample inputs\<close>

lemma float_round_samples:
  "float_round (19471113219505603967277331424215 / 649037107316853453566312041152512)
     = 1080863910568919 / 36028797018963968"
  "float_round (5404319552844595 / 36028797018963968) = 5404319552844595 / 36028797018963968"
  "float_round (18014398509481985 / 36028797018963968) = 1 / 2"
  "float_round (23418718062326579 / 36028797018963968) = 5854679515581645 / 9007199254740992"
  "float_round (24499581972895499 / 36028797018963968) = 6124895493223875 / 9007199254740992"
  "float_round (27021597764222979 / 36028797018963968) = 6755399441055745 / 9007199254740992"
  "float_round (28102461674791899 / 36028797018963968) = 7025615418697975 / 9007199254740992"
  "float_round (14411518807585587 / 18014398509481984) = 3602879701896397 / 4503599627370496"
  "float_round (32425917317067573 / 36028797018963968) = 8106479329266893 / 9007199254740992"
  by (simp_all add: float_round_defs)

lemmas relevance_sample_defs =
  unit_embed_def full_similarity_def teacher_memory_def teacher_memory_next_day_def
  future_memory_def casual_memory_def microseconds_per_day_def

lemmas float_round_values =
  float_round_literals float_round_products float_round_sums float_round_samples

lemma teacher_memory_relevance:
  "calculate_memory_relevance unit_embed full_similarity teacher_memory ''hello'' 0
     = Inr (1 + 1 / 2 ^ 52)"
  unfolding relevance_cases Let_def
  by (simp add: relevance_sample_defs timedelta_days_def float_round_values)

lemma casual_memory_relevance:
  "calculate_memory_relevance unit_embed full_similarity casual_memory ''hello'' 0
     = Inr (7025615418697975 / 9007199254740992)"
  unfolding relevance_cases Let_def
  by (simp add: relevance_sample_defs timedelta_days_def float_round_values)

lemma future_memory_relevance:
  "calculate_memory_relevance unit_embed full_similarity future_memory ''hello'' 0
     = Inl OverflowError"
  unfolding relevance_cases Let_def
  using recency_overflow_iff [of "- 7168"]
  by (simp add: relevance_sample_defs timedelta_days_def)


section \<open>The relevance formula\<close>

text \<open>
  C2 as stated fails on the code's arithmetic.  For a memory of importance one half with
  three accesses, read at the moment of the query, and a query of similarity 1, the
  formula of the claim gives \<open>0.4 + 0.2 + 0.15 + 0.03 = 0.78\<close>, and the code returns the
  double next above it (Python prints 0.7800000000000001); and for a memory whose
  \<open>last_accessed\<close> lies 7168 days after \<open>now\<close> the code returns no score at all:
  \<open>0.5 ** -1024.0\<close> raises \<open>OverflowError\<close>.
\<close>

theorem relevance_differs_from_exact_formula:
  "calculate_memory_relevance unit_embed full_similarity casual_memory ''hello'' 0
     = Inr (7025615418697975 / 9007199254740992)
   \<and> 0.4 * full_similarity (unit_embed (content casual_memory)) (unit_embed ''hello'')
       + 0.2 * (0.5 powr (real_of_int
                  \<lfloor>real_of_int (0 - last_accessed casual_memory) / 86400000000\<rfloor> / 7))
       + 0.3 * importance casual_memory
       + 0.1 * min (real_of_int (access_count casual_memory) / 10) 1.0
     = (39 / 50 :: real)
   \<and> (39 / 50 :: real) \<noteq> 7025615418697975 / 9007199254740992
   \<and> \<lfloor>real_of_int (0 - last_accessed future_memory) / 86400000000\<rfloor> = - 7168
   \<and> calculate_memory_relevance unit_embed full_similarity future_memory ''hello'' 0
       = Inl OverflowError"
  by (simp add: casual_memory_relevance future_memory_relevance)
    (simp add: relevance_sample_defs)

text \<open>
  C2, amended.  For every memory, query and time \<open>now\<close>, with \<open>age_days\<close> the whole days
  from \<open>last_accessed\<close> to \<open>now\<close> (the floor of the difference divided by one day),
  \<open>calculate_memory_relevance\<close> raises \<open>OverflowError\<close> when \<open>age_days \<le> -7168\<close> or when
  \<open>age_days / 7\<close> or \<open>access_count / 10\<close> is too large for a double, and otherwise
  returns the formula of the claim evaluated in doubles:
  \<open>0.4 * similarity + 0.2 * recency + 0.3 * importance + 0.1 * frequency\<close> with
  \<open>recency = 0.5 ** (age_days / 7)\<close> and \<open>frequency = min(access_count / 10, 1.0)\<close>, each
  constant, quotient, power, product and sum rounded to the nearest double, the sums
  taken from left to right.  Neither quotient is too large when \<open>age_days\<close> and
  \<open>access_count\<close> are at most \<open>2 ^ 1023\<close> in absolute value.
\<close>

theorem relevance_formula:
  "(let age_days = \<lfloor>real_of_int (current_time - last_accessed memory) / 86400000000\<rfloor>;
        exponent = float_round (real_of_int age_days / 7);
        recency = float_round (float_round 0.5 powr exponent);
        count_over_10 = float_round (real_of_int (access_count memory) / 10);
        frequency = min count_over_10 (float_round 1.0)
    in calculate_memory_relevance embed_fn cosine_similarity memory current_query current_time
         = (if age_days \<le> - 7168 \<or> 2 ^ 1024 \<le> \<bar>exponent\<bar> \<or> 2 ^ 1024 \<le> \<bar>count_over_10\<bar>
            then Inl OverflowError
            else Inr (float_round
                   (float_round
                      (float_round
                         (float_round
                            (float_round 0.4
                             * cosine_similarity (embed_fn (content memory)) (embed_fn current_query))
                          + float_round (float_round 0.2 * recency))
                       + float_round (float_round 0.3 * importance memory))
                    + float_round (float_round 0.1 * frequency))))
       \<and> (\<bar>age_days\<bar> \<le> 2 ^ 1023 \<and> \<bar>access_count memory\<bar> \<le> 2 ^ 1023
            \<longrightarrow> \<bar>exponent\<bar> < 2 ^ 1024 \<and> \<bar>count_over_10\<bar> < 2 ^ 1024))"
proof -
  define age_days where
    "age_days = \<lfloor>real_of_int (current_time - last_accessed memory) / 86400000000\<rfloor>"
  have age: "timedelta_days current_time (last_accessed memory) = age_days"
    by (simp only: timedelta_days_floor age_days_def)
  have finite: "\<bar>age_days\<bar> \<le> 2 ^ 1023 \<and> \<bar>access_count memory\<bar> \<le> 2 ^ 1023
      \<longrightarrow> \<bar>float_round (real_of_int age_days / 7)\<bar> < 2 ^ 1024
          \<and> \<bar>float_round (real_of_int (access_count memory) / 10)\<bar> < 2 ^ 1024"
    using quotient_below_overflow [of age_days 7]
      quotient_below_overflow [of "access_count memory" 10]
    by simp
  have "calculate_memory_relevance embed_fn cosine_similarity memory current_query current_time
      = (if age_days \<le> - 7168 \<or> 2 ^ 1024 \<le> \<bar>float_round (real_of_int age_days / 7)\<bar>
            \<or> 2 ^ 1024 \<le> \<bar>float_round (real_of_int (access_count memory) / 10)\<bar>
         then Inl OverflowError
         else Inr (float_round
                (float_round
                   (float_round
                      (float_round
                         (float_round 0.4
                          * cosine_similarity (embed_fn (content memory)) (embed_fn current_query))
                       + float_round (float_round 0.2
                           * float_round (float_round 0.5
                               powr float_round (real_of_int age_days / 7))))
                    + float_round (float_round 0.3 * importance memory))
                 + float_round (float_round 0.1
                     * min (float_round (real_of_int (access_count memory) / 10))
                         (float_round 1.0)))))"
    unfolding relevance_cases age Let_def
    using recency_overflow_iff [of age_days]
    by (simp add: float_round_literals mult.commute)
  with finite show ?thesis
    unfolding Let_def age_days_def by blast
qed

theorem relevance_formula_witness:
  "\<lfloor>real_of_int (604800000005 - last_accessed casual_memory) / 86400000000\<rfloor> = 7
   \<and> \<bar>access_count casual_memory\<bar> \<le> 2 ^ 1023
   \<and> calculate_memory_relevance unit_embed full_similarity casual_memory ''hello'' 604800000005
       = Inr (6124895493223875 / 9007199254740992)"
  using relevance_formula [of 604800000005 casual_memory unit_embed full_similarity "''hello''"]
  by (simp add: relevance_sample_defs float_round_values Let_def)

section \<open>Scoring reads the memory and leaves it as it was\<close>

text \<open>
  C9.  For every memory, query and time, scoring does not mutate the memory record: the
  object left behind by \<open>calculate_memory_relevance\<close> is the input memory, with every
  field (among them \<open>importance\<close>, \<open>access_count\<close> and \<open>last_accessed\<close>) unchanged, and
  the score is the one of the formula.  Counting the access and moving \<open>last_accessed\<close>
  is therefore left to the caller.
\<close>

theorem scoring_leaves_memory_unchanged:
  "snd (calculate_memory_relevance_st embed_fn cosine_similarity memory query now) = memory
   \<and> importance (snd (calculate_memory_relevance_st embed_fn cosine_similarity memory query now))
       = importance memory
   \<and> access_count (snd (calculate_memory_relevance_st embed_fn cosine_similarity memory query now))
       = access_count memory
   \<and> last_accessed (snd (calculate_memory_relevance_st embed_fn cosine_similarity memory query now))
       = last_accessed memory
   \<and> fst (calculate_memory_relevance_st embed_fn cosine_similarity memory query now)
       = calculate_memory_relevance embed_fn cosine_similarity memory query now"
  by (simp add: calculate_memory_relevance_st_def calculate_memory_relevance_def Let_def
      split: sum.splits)

section \<open>The range of the score\<close>

text \<open>
  C10 as stated fails on the doubles the code computes with.  For a memory of importance
  1 with ten accesses, read at the moment of the query, and a query of similarity 1, every
  hypothesis of the claim holds and the four rounded products 0.4, 0.2, 0.3 and 0.1 add
  up, with a rounding after each addition, to \<open>1 + 2 ^ -52\<close> (Python prints
  1.0000000000000002).
\<close>

theorem relevance_above_one_in_doubles:
  "0 \<le> full_similarity (unit_embed (content teacher_memory)) (unit_embed ''hello'')
   \<and> full_similarity (unit_embed (content teacher_memory)) (unit_embed ''hello'') \<le> 1
   \<and> 0 \<le> importance teacher_memory \<and> importance teacher_memory \<le> 1
   \<and> 0 \<le> access_count teacher_memory
   \<and> 0 \<le> \<lfloor>real_of_int (0 - last_accessed teacher_memory) / 86400000000\<rfloor>
   \<and> calculate_memory_relevance unit_embed full_similarity teacher_memory ''hello'' 0
       = Inr (1 + 1 / 2 ^ 52)
   \<and> (1 :: real) < 1 + 1 / 2 ^ 52"
  by (simp add: teacher_memory_relevance) (simp add: relevance_sample_defs)

text \<open>
  C10, amended.  For every memory and query such that the semantic similarity lies in
  [0,1], the importance lies in [0,1], the access count is not negative and the whole
  days since \<open>last_accessed\<close> are not negative, the value returned by
  \<open>calculate_memory_relevance\<close> lies between 0 and \<open>1 + 2 ^ -52\<close>, the double next above
  1; and the call returns a value unless the age in days or the access count exceeds
  \<open>2 ^ 1023\<close>, the one case in which it raises (\<open>OverflowError\<close>).
\<close>

theorem relevance_within_one_ulp_of_unit_interval:
  assumes "0 \<le> cosine_similarity (embed_fn (content memory)) (embed_fn current_query)"
    and "cosine_similarity (embed_fn (content memory)) (embed_fn current_query) \<le> 1"
    and "0 \<le> importance memory" and "importance memory \<le> 1"
    and "0 \<le> access_count memory"
    and "0 \<le> \<lfloor>real_of_int (current_time - last_accessed memory) / 86400000000\<rfloor>"
  shows "case calculate_memory_relevance embed_fn cosine_similarity memory current_query
                current_time of
           Inl raised \<Rightarrow>
             raised = OverflowError
             \<and> (2 ^ 1023 < \<lfloor>real_of_int (current_time - last_accessed memory) / 86400000000\<rfloor>
                  \<or> 2 ^ 1023 < access_count memory)
         | Inr score \<Rightarrow> 0 \<le> score \<and> score \<le> 1 + 1 / 2 ^ 52"
proof -
  define age_days where "age_days = timedelta_days current_time (last_accessed memory)"
  define exponent where "exponent = float_round (real_of_int age_days / 7)"
  define recency_score where "recency_score = float_round ((1 / 2) powr exponent)"
  define count_over_10 where
    "count_over_10 = float_round (real_of_int (access_count memory) / 10)"
  have age: "0 \<le> age_days" using assms(6) by (simp only: age_days_def timedelta_days_floor)
  have "0 \<le> exponent" unfolding exponent_def using age by (intro float_round_nonneg) simp
  then have recency: "0 \<le> recency_score \<and> recency_score \<le> 1"
    unfolding recency_score_def by (rule recency_unit)
  have "0 \<le> count_over_10"
    unfolding count_over_10_def using assms(5) by (intro float_round_nonneg) simp
  then have frequency: "0 \<le> min count_over_10 1" "min count_over_10 1 \<le> 1" by simp_all
  have bounds: "0 \<le> float_round
           (float_round
              (float_round
                 (float_round
                    (cosine_similarity (embed_fn (content memory)) (embed_fn current_query)
                     * float_round 0.4)
                  + float_round (recency_score * float_round 0.2))
               + float_round (importance memory * float_round 0.3))
            + float_round (min count_over_10 1 * float_round 0.1))
       \<and> float_round
           (float_round
              (float_round
                 (float_round
                    (cosine_similarity (embed_fn (content memory)) (embed_fn current_query)
                     * float_round 0.4)
                  + float_round (recency_score * float_round 0.2))
               + float_round (importance memory * float_round 0.3))
            + float_round (min count_over_10 1 * float_round 0.1)) \<le> 1 + 1 / 2 ^ 52"
    using assms(1-4) recency frequency by (intro weighted_sum_bounds) simp_all
  have small: "\<not> 2 ^ 1024 \<le> \<bar>recency_score\<bar>" using recency by simp
  have large: "2 ^ 1024 \<le> \<bar>exponent\<bar> \<Longrightarrow> 2 ^ 1023 < age_days"
    using quotient_below_overflow [of age_days 7] age unfolding exponent_def by force
  have large': "2 ^ 1024 \<le> \<bar>count_over_10\<bar> \<Longrightarrow> 2 ^ 1023 < access_count memory"
    using quotient_below_overflow [of "access_count memory" 10] assms(5)
    unfolding count_over_10_def by force
  have "calculate_memory_relevance embed_fn cosine_similarity memory current_query current_time
      = (if 2 ^ 1024 \<le> \<bar>exponent\<bar> \<or> 2 ^ 1024 \<le> \<bar>count_over_10\<bar> then Inl OverflowError
         else Inr (float_round
           (float_round
              (float_round
                 (float_round
                    (cosine_similarity (embed_fn (content memory)) (embed_fn current_query)
                     * float_round 0.4)
                  + float_round (recency_score * float_round 0.2))
               + float_round (importance memory * float_round 0.3))
            + float_round (min count_over_10 1 * float_round 0.1))))"
    unfolding relevance_cases Let_def
    using small
    by (simp only: age_days_def [symmetric] exponent_def [symmetric]
        recency_score_def [symmetric] count_over_10_def [symmetric]) simp
  then show ?thesis
    using bounds large large'
    by (simp only: age_days_def [symmetric] timedelta_days_floor [symmetric]) 
      (auto simp only: sum.case split: if_splits)
qed

theorem relevance_within_one_ulp_of_unit_interval_witness:
  "0 \<le> full_similarity (unit_embed (content casual_memory)) (unit_embed ''hello'')
   \<and> full_similarity (unit_embed (content casual_memory)) (unit_embed ''hello'') \<le> 1
   \<and> 0 \<le> importance casual_memory \<and> importance casual_memory \<le> 1
   \<and> 0 \<le> access_count casual_memory
   \<and> 0 \<le> \<lfloor>real_of_int (0 - last_accessed casual_memory) / 86400000000\<rfloor>
   \<and> (case calculate_memory_relevance unit_embed full_similarity casual_memory ''hello'' 0 of
         Inl raised \<Rightarrow>
           raised = OverflowError
           \<and> (2 ^ 1023 < \<lfloor>real_of_int (0 - last_accessed casual_memory) / 86400000000\<rfloor>
                \<or> 2 ^ 1023 < access_count casual_memory)
       | Inr score \<Rightarrow> 0 \<le> score \<and> score \<le> 1 + 1 / 2 ^ 52)"
  using relevance_within_one_ulp_of_unit_interval
    [of full_similarity unit_embed casual_memory "''hello''" 0]
  by (simp add: relevance_sample_defs)

section \<open>The ranking is a function of the memory set\<close>














section \<open>The token budget of an assembled context\<close>

lemma fill_budget_sum:
  "0 \<le> max_tokens \<Longrightarrow> sum_list (map m_tokens (fill_budget max_tokens msgs)) \<le> max_tokens"
proof (induction msgs arbitrary: max_tokens)
  case Nil
  then show ?case by simp
next
  case (Cons m msgs)
  show ?case
  proof (cases "m_tokens m \<le> max_tokens")
    case True
    then have "sum_list (map m_tokens (fill_budget (max_tokens - m_tokens m) msgs))
        \<le> max_tokens - m_tokens m"
      by (intro Cons.IH) simp
    with True show ?thesis by simp
  next
    case False
    with Cons.prems show ?thesis by simp
  qed
qed

lemma fill_budget_prefix: "prefix (fill_budget max_tokens msgs) msgs"
  by (induction msgs arbitrary: max_tokens) auto

lemma get_recent_messages_within_buffer:
  "length (get_recent_messages capacity sess max_tokens) \<le> capacity
   \<and> set (get_recent_messages capacity sess max_tokens) \<subseteq> set (raw_buffer capacity sess)"
proof -
  have p: "prefix (get_recent_messages capacity sess max_tokens) (raw_buffer capacity sess)"
    by (simp add: get_recent_messages_def fill_budget_prefix)
  have "length (raw_buffer capacity sess) \<le> capacity"
    by (simp add: raw_buffer_def)
  with p show ?thesis
    using prefix_length_le set_mono_prefix by fastforce
qed

text \<open>The sections of the context, in the order in which the source appends them.\<close>

lemma assemble_context_sections:
  "assemble_context b sess uid character current_message =
     [(CharacterProfile, get_character_profile b character),
      (UserProfile, format_user_profile b (get_user_entities b uid character))]
     @ (case get_last_session_summary b uid character of
          None \<Rightarrow> []
        | Some summary \<Rightarrow>
            if summary = [] then [] else [(LastConversation, ''Last conversation: '' @ summary)])
     @ [(RelevantMemories, format_memories b (semantic_search b current_message uid character 5))]
     @ (if 10 < message_count sess
        then [(ConversationSoFar, ''Conversation so far: '' @ working_memory sess)] else [])
     @ [(RecentMessages,
         format_messages b
           (get_recent_messages (buffer_capacity b) sess (message_budget b sess uid character)))]"
  by (simp add: assemble_context_def message_budget_def Let_def split: option.split)

lemma message_budget_nonneg: "0 \<le> message_budget b sess uid character"
  by (simp add: message_budget_def split: option.split)

lemmas sample_defs =
  sample_backend_def open_session_def tokens_by_char_def hello_message_def
  get_recent_messages_def raw_buffer_def message_budget_def

text \<open>
  C1 as stated fails.  \<open>assemble_context\<close> has no \<open>token_budget\<close> parameter: it starts
  from 4000 and subtracts the nominal size of each section, whatever the size of the text
  it appended.  With a character profile of 4001 tokens the sections sum to more than
  4000, hence to more than any budget a caller has in mind up to 4000.
\<close>

theorem context_exceeds_budget:
  "4000 < bundle_tokens (sample_backend oversized_profile)
     (assemble_context (sample_backend oversized_profile) (open_session 0 [])
        ''u1'' ''Batman'' ''hello'')"
  by (simp add: assemble_context_sections bundle_tokens_def sample_defs oversized_profile_def)

text \<open>
  C1, amended.  \<open>assemble_context(user_id, character, current_message)\<close> returns an
  ordered list of sections: character profile, user profile, last conversation (if there
  is a summary), relevant memories, conversation so far (if the session has more than 10
  messages), recent messages.  Its budget is the constant 4000, of which 500, 200, 200,
  300 and 300 are set aside for the first five sections and the rest is handed to
  \<open>get_recent_messages\<close>.  Whenever each of the first five sections is within the size
  set aside for it and the formatted recent messages count no more tokens than the
  messages themselves, the token counts of the sections sum to at most 4000.
\<close>

theorem context_within_nominal_budget:
  assumes "count_tokens b (get_character_profile b character) \<le> 500"
    and "count_tokens b (format_user_profile b (get_user_entities b uid character)) \<le> 200"
    and "\<forall>summary. get_last_session_summary b uid character = Some summary \<and> summary \<noteq> []
           \<longrightarrow> count_tokens b (''Last conversation: '' @ summary) \<le> 200"
    and "count_tokens b (format_memories b (semantic_search b current_message uid character 5))
           \<le> 300"
    and "10 < message_count sess
           \<longrightarrow> count_tokens b (''Conversation so far: '' @ working_memory sess) \<le> 300"
    and "count_tokens b (format_messages b
            (get_recent_messages (buffer_capacity b) sess (message_budget b sess uid character)))
         \<le> sum_list (map m_tokens
            (get_recent_messages (buffer_capacity b) sess (message_budget b sess uid character)))"
  shows "bundle_tokens b (assemble_context b sess uid character current_message) \<le> 4000
    \<and> map fst (assemble_context b sess uid character current_message)
        = [CharacterProfile, UserProfile]
          @ (case get_last_session_summary b uid character of
               None \<Rightarrow> [] | Some summary \<Rightarrow> if summary = [] then [] else [LastConversation])
          @ [RelevantMemories]
          @ (if 10 < message_count sess then [ConversationSoFar] else [])
          @ [RecentMessages]"
proof -
  have "sum_list (map m_tokens
           (get_recent_messages (buffer_capacity b) sess (message_budget b sess uid character)))
     \<le> message_budget b sess uid character"
    unfolding get_recent_messages_def by (rule fill_budget_sum) (rule message_budget_nonneg)
  with assms have "bundle_tokens b (assemble_context b sess uid character current_message) \<le> 4000"
    by (auto simp add: assemble_context_sections bundle_tokens_def message_budget_def
        split: option.split)
  then show ?thesis
    by (simp add: assemble_context_sections split: option.split)
qed

theorem context_within_nominal_budget_witness:
  "count_tokens returning_backend (get_character_profile returning_backend ''Batman'') \<le> 500
   \<and> count_tokens returning_backend
       (format_user_profile returning_backend
          (get_user_entities returning_backend ''u1'' ''Batman'')) \<le> 200
   \<and> get_last_session_summary returning_backend ''u1'' ''Batman'' = Some ''We spoke of Gotham''
   \<and> count_tokens returning_backend (''Last conversation: '' @ ''We spoke of Gotham'') \<le> 200
   \<and> count_tokens returning_backend
       (format_memories returning_backend
          (semantic_search returning_backend ''hello'' ''u1'' ''Batman'' 5)) \<le> 300
   \<and> 10 < message_count (open_session 12 [hello_message])
   \<and> count_tokens returning_backend
       (''Conversation so far: '' @ working_memory (open_session 12 [hello_message])) \<le> 300
   \<and> message_budget returning_backend (open_session 12 [hello_message]) ''u1'' ''Batman'' = 2500
   \<and> get_recent_messages (buffer_capacity returning_backend) (open_session 12 [hello_message])
         2500 = [hello_message]
   \<and> count_tokens returning_backend (format_messages returning_backend [hello_message])
       \<le> sum_list (map m_tokens [hello_message])
   \<and> bundle_tokens returning_backend
         (assemble_context returning_backend (open_session 12 [hello_message])
            ''u1'' ''Batman'' ''hello'') = 135
   \<and> bundle_tokens returning_backend
         (assemble_context returning_backend (open_session 12 [hello_message])
            ''u1'' ''Batman'' ''hello'') \<le> 4000
   \<and> map fst (assemble_context returning_backend (open_session 12 [hello_message])
         ''u1'' ''Batman'' ''hello'')
       = [CharacterProfile, UserProfile, LastConversation, RelevantMemories, ConversationSoFar,
          RecentMessages]"
  using context_within_nominal_budget
    [of returning_backend "''Batman''" "''u1''" "''hello''" "open_session 12 [hello_message]"]
  by (simp add: returning_backend_def teacher_memory_def sample_defs assemble_context_sections
      bundle_tokens_def)

section \<open>The character profile is never dropped\<close>

text \<open>
  C4 as stated fails.  With a character profile of 4001 tokens the two sections that are
  always included exceed the 4000 tokens of the budget, and the profile still comes back
  whole: nothing is truncated.
\<close>

theorem oversized_profile_kept_whole:
  "4000 < count_tokens (sample_backend oversized_profile)
            (get_character_profile (sample_backend oversized_profile) ''Batman'')
          + count_tokens (sample_backend oversized_profile)
              (format_user_profile (sample_backend oversized_profile)
                 (get_user_entities (sample_backend oversized_profile) ''u1'' ''Batman''))
   \<and> hd (assemble_context (sample_backend oversized_profile) (open_session 0 [])
           ''u1'' ''Batman'' ''hello'') = (CharacterProfile, oversized_profile)
   \<and> count_tokens (sample_backend oversized_profile)
        (snd (hd (assemble_context (sample_backend oversized_profile) (open_session 0 [])
           ''u1'' ''Batman'' ''hello''))) = 4001"
  by (simp add: assemble_context_sections sample_defs)
    (simp add: oversized_profile_def)

text \<open>
  C4, amended.  For every call of \<open>assemble_context\<close> the character profile is never
  dropped: the returned context is not empty, its first section is the character
  profile, in full and as \<open>get_character_profile\<close> returned it, and it is the only
  section of that kind.  There is no token budget to pass and no truncation: the profile
  is included whole whatever its size.
\<close>

theorem profile_always_first_and_whole:
  "assemble_context b sess uid character current_message \<noteq> []
   \<and> hd (assemble_context b sess uid character current_message)
       = (CharacterProfile, get_character_profile b character)
   \<and> length (filter (\<lambda>section. fst section = CharacterProfile)
        (assemble_context b sess uid character current_message)) = 1"
  by (simp add: assemble_context_sections split: option.split)

section \<open>When the working-memory summary is part of the context\<close>

lemma twenty_messages_one_summary:
  "summarizer_runs 15 summarize (new_session sid uid character now) (map msg [0..<20]) = 1"
  by (simp add: upt_rec maybeUpdate_def summary_due_def append_message_def new_session_def)

lemma twenty_messages_session:
  "message_count (send_messages 15 summarize (new_session sid uid character now)
      (map msg [0..<20])) = 20
   \<and> s_messages (send_messages 15 summarize (new_session sid uid character now)
      (map msg [0..<20])) = map msg [0..<20]"
  by (simp add: upt_rec maybeUpdate_def summary_due_def append_message_def new_session_def)

lemma twenty_messages_buffer:
  "s_messages sess = map msg [0..<20] \<Longrightarrow> set (raw_buffer 15 sess) = set (map msg [5..<20])"
  by (auto simp add: raw_buffer_def take_rev drop_map)

text \<open>
  C5 as stated fails.  The source includes the working-memory section when
  \<open>session_message_count > 10\<close>, a literal that does not follow the capacity of the raw
  buffer: with a buffer of capacity 15 and 12 messages in the open session, the message
  count does not exceed the capacity and the section is there all the same.
\<close>

theorem working_memory_included_below_capacity:
  "buffer_capacity (sample_backend ''I am Batman'') = 15
   \<and> message_count (open_session 12 []) = 12
   \<and> \<not> int (buffer_capacity (sample_backend ''I am Batman'')) < message_count (open_session 12 [])
   \<and> ConversationSoFar \<in> fst ` set (assemble_context (sample_backend ''I am Batman'')
        (open_session 12 []) ''u1'' ''Batman'' ''hello'')"
  by (simp add: assemble_context_sections sample_defs)

text \<open>
  C5, amended.  For every call of \<open>assemble_context\<close> on an open session, the
  working-memory summary section is included if and only if the session's message count
  exceeds 10.  The last section holds the recent messages, which are at most as many as
  the raw buffer's capacity and all among the last messages of that number.  With buffer
  capacity 15 and 20 messages sent to a new session, the summarizer runs exactly once by
  message 20, and the next context contains the working-memory section and, in its
  raw-buffer section, messages among the last 15 only.
\<close>

theorem working_memory_included_above_ten:
  "(ConversationSoFar \<in> fst ` set (assemble_context b sess uid character current_message))
     = (10 < message_count sess)
   \<and> snd (last (assemble_context b sess uid character current_message))
     = format_messages b
         (get_recent_messages (buffer_capacity b) sess (message_budget b sess uid character))
   \<and> length (get_recent_messages (buffer_capacity b) sess (message_budget b sess uid character))
     \<le> buffer_capacity b
   \<and> set (get_recent_messages (buffer_capacity b) sess (message_budget b sess uid character))
     \<subseteq> set (take (buffer_capacity b) (rev (s_messages sess)))
   \<and> summarizer_runs 15 summarize (new_session sid uid character now) (map msg [0..<20]) = 1
   \<and> (buffer_capacity b = 15 \<longrightarrow>
        ConversationSoFar \<in> fst ` set (assemble_context b
          (send_messages 15 summarize (new_session sid uid character now) (map msg [0..<20]))
          uid character current_message)
        \<and> length (get_recent_messages (buffer_capacity b)
            (send_messages 15 summarize (new_session sid uid character now) (map msg [0..<20]))
            (message_budget b
               (send_messages 15 summarize (new_session sid uid character now)
                  (map msg [0..<20])) uid character)) \<le> 15
        \<and> set (get_recent_messages (buffer_capacity b)
            (send_messages 15 summarize (new_session sid uid character now) (map msg [0..<20]))
            (message_budget b
               (send_messages 15 summarize (new_session sid uid character now)
                  (map msg [0..<20])) uid character))
          \<subseteq> set (map msg [5..<20]))"
proof -
  let ?s20 = "send_messages 15 summarize (new_session sid uid character now) (map msg [0..<20])"
  have a: "(ConversationSoFar \<in> fst ` set (assemble_context b sess uid character current_message))
     = (10 < message_count sess)" for sess
    by (auto simp add: assemble_context_sections split: option.split)
  have b: "snd (last (assemble_context b sess uid character current_message))
     = format_messages b
         (get_recent_messages (buffer_capacity b) sess (message_budget b sess uid character))"
    by (simp add: assemble_context_sections)
  have c: "length (get_recent_messages capacity sess max_tokens) \<le> capacity
     \<and> set (get_recent_messages capacity sess max_tokens)
       \<subseteq> set (take capacity (rev (s_messages sess)))" for capacity sess max_tokens
    using get_recent_messages_within_buffer [of capacity sess max_tokens]
    by (simp add: raw_buffer_def)
  have d: "set (get_recent_messages 15 ?s20 max_tokens) \<subseteq> set (map msg [5..<20])"
    for max_tokens
    using get_recent_messages_within_buffer [of 15 ?s20 max_tokens]
      twenty_messages_buffer [of ?s20 msg] twenty_messages_session [of summarize sid uid character now msg]
    by simp
  have e: "ConversationSoFar \<in> fst ` set (assemble_context b ?s20 uid character current_message)"
    unfolding a using twenty_messages_session [of summarize sid uid character now msg] by simp
  show ?thesis
    using a [of sess] b c [of "buffer_capacity b" sess] c [of 15 ?s20] d e
      twenty_messages_one_summary [of summarize sid uid character now msg]
    by simp
qed

theorem working_memory_included_above_ten_witness:
  "10 < message_count (open_session 12 [hello_message])
   \<and> ConversationSoFar \<in> fst ` set (assemble_context (sample_backend ''I am Batman'')
        (open_session 12 [hello_message]) ''u1'' ''Batman'' ''hello'')
   \<and> buffer_capacity (sample_backend ''I am Batman'') = 15
   \<and> summarizer_runs 15 joining_summarizer (new_session ''session_1'' ''u1'' ''Batman'' 0)
        (map numbered_message [0..<20]) = 1
   \<and> ConversationSoFar \<in> fst ` set (assemble_context (sample_backend ''I am Batman'')
        (send_messages 15 joining_summarizer (new_session ''session_1'' ''u1'' ''Batman'' 0)
           (map numbered_message [0..<20])) ''u1'' ''Batman'' ''hello'')
   \<and> length (get_recent_messages (buffer_capacity (sample_backend ''I am Batman''))
        (send_messages 15 joining_summarizer (new_session ''session_1'' ''u1'' ''Batman'' 0)
           (map numbered_message [0..<20]))
        (message_budget (sample_backend ''I am Batman'')
           (send_messages 15 joining_summarizer (new_session ''session_1'' ''u1'' ''Batman'' 0)
              (map numbered_message [0..<20])) ''u1'' ''Batman'')) \<le> 15"
  using working_memory_included_above_ten
    [of "sample_backend ''I am Batman''" "open_session 12 [hello_message]" "''u1''" "''Batman''"
        "''hello''" joining_summarizer "''session_1''" 0 numbered_message]
  by (simp add: sample_backend_def open_session_def)

section \<open>The working-memory summarizer\<close>

lemma count_take_words: "count_words in_word (take_words n in_word s) \<le> n"
proof (induction s arbitrary: n in_word)
  case Nil
  show ?case by simp
next
  case (Cons c cs)
  show ?case
  proof (cases "is_space c \<or> in_word")
    case True
    then show ?thesis using Cons.IH by auto
  next
    case False
    show ?thesis
    proof (cases n)
      case 0
      with False show ?thesis by simp
    next
      case (Suc k)
      with False show ?thesis using Cons.IH [of True k] by simp
    qed
  qed
qed

lemma take_words_all: "count_words in_word s \<le> n \<Longrightarrow> take_words n in_word s = s"
proof (induction s arbitrary: n in_word)
  case Nil
  show ?case by simp
next
  case (Cons c cs)
  then show ?case
    by (cases n) (auto split: if_splits)
qed

text \<open>
  C7.  For every session, \<open>maybeUpdate\<close> is a no-op, returning the session with its
  working memory unchanged, whenever \<open>message_count - lastSummarizedAt < 5\<close>.  When it
  does fire, the new working memory is the language model's summary of the previous
  working memory and the last five messages, cut to 100 words: it has at most 100 words,
  it is the model's answer itself when that keeps to 100 words, and it depends on the
  previous working memory and the new messages only, not on the rest of the transcript.
\<close>

theorem summarizer_threshold_and_incremental_update:
  "(message_count sess - last_summarized_at sess < 5
      \<longrightarrow> maybeUpdate capacity summarize sess = sess)
   \<and> (summary_due capacity sess \<longrightarrow>
        working_memory (maybeUpdate capacity summarize sess)
          = truncate_words 100 (summarize (working_memory sess) (last_5_messages sess))
        \<and> word_count (working_memory (maybeUpdate capacity summarize sess)) \<le> 100
        \<and> (word_count (summarize (working_memory sess) (last_5_messages sess)) \<le> 100
             \<longrightarrow> working_memory (maybeUpdate capacity summarize sess)
                  = summarize (working_memory sess) (last_5_messages sess)))
   \<and> (summary_due capacity sess \<and> summary_due capacity sess'
        \<and> working_memory sess = working_memory sess'
        \<and> last_5_messages sess = last_5_messages sess'
        \<longrightarrow> working_memory (maybeUpdate capacity summarize sess)
            = working_memory (maybeUpdate capacity summarize sess'))"
  by (simp add: maybeUpdate_def summary_due_def word_count_def truncate_words_def
      count_take_words take_words_all)

theorem summarizer_threshold_and_incremental_update_witness:
  "message_count (open_session 3 [hello_message]) - last_summarized_at (open_session 3 [hello_message]) < 5
   \<and> maybeUpdate 15 joining_summarizer (open_session 3 [hello_message])
       = open_session 3 [hello_message]
   \<and> summary_due 15 (open_session 16 sixteen_messages)
   \<and> summary_due 15 (open_session 21 (hello_message # sixteen_messages))
   \<and> working_memory (open_session 16 sixteen_messages)
       = working_memory (open_session 21 (hello_message # sixteen_messages))
   \<and> last_5_messages (open_session 16 sixteen_messages)
       = last_5_messages (open_session 21 (hello_message # sixteen_messages))
   \<and> working_memory (maybeUpdate 15 joining_summarizer (open_session 16 sixteen_messages))
       = ''User asks about Gotham hello hello hello hello hello''
   \<and> word_count (working_memory
         (maybeUpdate 15 joining_summarizer (open_session 16 sixteen_messages))) = 9
   \<and> working_memory (maybeUpdate 15 joining_summarizer
         (open_session 21 (hello_message # sixteen_messages)))
       = ''User asks about Gotham hello hello hello hello hello''"
  using summarizer_threshold_and_incremental_update
      [of "open_session 3 [hello_message]" 15 joining_summarizer
          "open_session 3 [hello_message]"]
    summarizer_threshold_and_incremental_update
      [of "open_session 16 sixteen_messages" 15 joining_summarizer
          "open_session 21 (hello_message # sixteen_messages)"]
  by (simp add: open_session_def sixteen_messages_def hello_message_def summary_due_def
      last_5_messages_def maybeUpdate_def joining_summarizer_def truncate_words_def
      word_count_def is_space_def numeral_eq_Suc)

section \<open>Extraction is idempotent\<close>

lemma dedup_key_to_memory:
  "dedup_key h (to_memory sess x now i f) = (x_message_id x, h (fact_content f))"
  by (simp add: dedup_key_def to_memory_def)

lemma persist_fact_keys:
  "dedup_key h ` set (persist_fact h sess x now rows f)
     = insert (x_message_id x, h (fact_content f)) (dedup_key h ` set rows)"
  by (auto simp: persist_fact_def Let_def dedup_key_to_memory)

lemma persist_fact_known:
  "(x_message_id x, h (fact_content f)) \<in> dedup_key h ` set rows
     \<Longrightarrow> persist_fact h sess x now rows f = rows"
  by (simp add: persist_fact_def Let_def dedup_key_to_memory)

lemma persist_fact_distinct:
  "distinct (map (dedup_key h) rows)
     \<Longrightarrow> distinct (map (dedup_key h) (persist_fact h sess x now rows f))"
  by (simp add: persist_fact_def Let_def)

lemma foldl_persist_keys:
  "dedup_key h ` set (foldl (persist_fact h sess x now) rows fs)
     = dedup_key h ` set rows \<union> (\<lambda>f. (x_message_id x, h (fact_content f))) ` set fs"
proof (induction fs arbitrary: rows)
  case Nil
  show ?case by simp
next
  case (Cons f fs)
  show ?case
    unfolding foldl_Cons Cons.IH persist_fact_keys by auto
qed

lemma foldl_persist_known:
  "(\<lambda>f. (x_message_id x, h (fact_content f))) ` set fs \<subseteq> dedup_key h ` set rows
     \<Longrightarrow> foldl (persist_fact h sess x now) rows fs = rows"
  by (induction fs) (simp_all add: persist_fact_known)

lemma foldl_persist_distinct:
  "distinct (map (dedup_key h) rows)
     \<Longrightarrow> distinct (map (dedup_key h) (foldl (persist_fact h sess x now) rows fs))"
  by (induction fs arbitrary: rows) (simp_all add: persist_fact_distinct)

text \<open>
  C3.  Running the extraction a second time on the same exchange, with the same source
  identifiers, leaves the stored memories exactly as the first run left them, whenever
  the second run happens: no row is added, the record count is stable, and a store
  without two rows of the same \<open>(source_message_id, content_hash)\<close> stays so.  The
  key is all that counts: a second run whose statements hash to contents the first run
  has seen, in whatever order and with whatever scores, adds nothing either.
\<close>

theorem extraction_idempotent:
  "extract_memories h extract_facts sess x later (extract_memories h extract_facts sess x now rows)
     = extract_memories h extract_facts sess x now rows
   \<and> length (extract_memories h extract_facts sess x later
        (extract_memories h extract_facts sess x now rows))
     = length (extract_memories h extract_facts sess x now rows)
   \<and> (distinct (map (dedup_key h) rows)
        \<longrightarrow> distinct (map (dedup_key h) (extract_memories h extract_facts sess x now rows)))
   \<and> ((\<lambda>f. h (fact_content f)) ` set (extract_again x)
          \<subseteq> (\<lambda>f. h (fact_content f)) ` set (extract_facts x)
        \<longrightarrow> extract_memories h extract_again sess x later
              (extract_memories h extract_facts sess x now rows)
            = extract_memories h extract_facts sess x now rows)"
proof -
  have again: "extract_memories h extract_again sess x later
          (extract_memories h extract_facts sess x now rows)
     = extract_memories h extract_facts sess x now rows"
    if "(\<lambda>f. h (fact_content f)) ` set (extract_again x)
          \<subseteq> (\<lambda>f. h (fact_content f)) ` set (extract_facts x)" for extract_again
  proof -
    have "(\<lambda>f. (x_message_id x, h (fact_content f))) ` set (extract_again x)
        \<subseteq> (\<lambda>f. (x_message_id x, h (fact_content f))) ` set (extract_facts x)"
      using that by (auto simp: image_iff subset_iff)
    then show ?thesis
      unfolding extract_memories_def
      by (intro foldl_persist_known) (auto simp add: foldl_persist_keys)
  qed
  from again [of extract_facts] again [of extract_again] show ?thesis
    by (simp add: foldl_persist_distinct) (simp add: extract_memories_def foldl_persist_distinct)
qed

theorem extraction_idempotent_witness:
  "distinct (map (dedup_key length_hash) [teacher_memory])
   \<and> distinct (map (dedup_key length_hash)
        (extract_memories length_hash teacher_facts (open_session 2 []) teacher_exchange 5
           [teacher_memory]))
   \<and> length (extract_memories length_hash teacher_facts (open_session 2 []) teacher_exchange 5
        [teacher_memory]) = 3
   \<and> length (extract_memories length_hash teacher_facts (open_session 2 []) teacher_exchange 9
        (extract_memories length_hash teacher_facts (open_session 2 []) teacher_exchange 5
           [teacher_memory])) = 3
   \<and> (\<lambda>f. length_hash (fact_content f)) ` set (teacher_facts_again teacher_exchange)
        \<subseteq> (\<lambda>f. length_hash (fact_content f)) ` set (teacher_facts teacher_exchange)
   \<and> length (extract_memories length_hash teacher_facts_again (open_session 2 [])
        teacher_exchange 9
        (extract_memories length_hash teacher_facts (open_session 2 []) teacher_exchange 5
           [teacher_memory])) = 3"
  using extraction_idempotent
    [of length_hash teacher_facts "open_session 2 []" teacher_exchange 9 5 "[teacher_memory]"
        teacher_facts_again]
  by (simp add: extract_memories_def teacher_facts_def teacher_facts_again_def persist_fact_def
      to_memory_def dedup_key_def length_hash_def teacher_exchange_def teacher_memory_def
      open_session_def next_id_def Let_def)

section \<open>Messages of a chat session are in timestamp order\<close>

lemma session_ok_mono: "session_ok t cs \<Longrightarrow> t \<le> t' \<Longrightarrow> session_ok t' cs"
  by (fastforce simp: session_ok_def)

lemma store_ok_mono: "store_ok t s \<Longrightarrow> t \<le> t' \<Longrightarrow> store_ok t' s"
  unfolding store_ok_def by (meson session_ok_mono)

lemma session_ok_append:
  "session_ok t cs \<Longrightarrow> t \<le> now \<Longrightarrow> cm_timestamp m = now \<Longrightarrow> messages cs' = messages cs @ [m]
     \<Longrightarrow> session_ok now cs'"
  by (fastforce simp: session_ok_def sorted_append)

lemma session_ok_empty: "messages cs = [] \<Longrightarrow> session_ok t cs"
  by (simp add: session_ok_def)

lemma store_ok_init: "store_ok t init_store"
  by (simp add: store_ok_def init_store_def)

lemma get_property_Session:
  "get_property obj k = Some (Session cs) \<Longrightarrow> obj k = Some cs"
  by (auto simp: get_property_def split: option.splits if_splits)

lemma loadCharacterSession_ok:
  assumes "store_ok t s" "t \<le> now"
  shows "store_ok now (s\<lparr>chat := loadCharacterSession k new_id now (chat s)\<rparr>)"
proof -
  have "store_ok now s" using assms by (rule store_ok_mono)
  then show ?thesis
    by (auto simp: store_ok_def loadCharacterSession_def Let_def session_ok_empty
        dest: get_property_Session split: option.splits)
qed

lemma setCharacter_ok:
  assumes "store_ok t s" "t \<le> now"
  shows "store_ok now (s\<lparr>chat := setCharacter k new_id now (chat s)\<rparr>)"
proof -
  have "store_ok t (s\<lparr>chat := (chat s)\<lparr>currentCharacter := Some k, error := None\<rparr>\<rparr>)"
    using assms(1) by (simp add: store_ok_def)
  from loadCharacterSession_ok [OF this assms(2), of k new_id] show ?thesis
    by (simp add: setCharacter_def)
qed

lemma sendMessage_ok:
  assumes "store_ok t s" "t \<le> now" "now \<le> now'"
  shows "store_ok now' (snd (sendMessage message stream_failure now now' s))"
proof -
  have later: "store_ok now' s" using assms by (auto intro: store_ok_mono)
  show ?thesis
  proof (cases "currentSession (chat s)")
    case None
    with later show ?thesis by (simp add: sendMessage_def)
  next
    case (Some current_session)
    show ?thesis
    proof (cases "currentCharacter (chat s)")
      case None
      with later show ?thesis by (simp add: sendMessage_def split: option.splits)
    next
      case ch: (Some ch)
      show ?thesis
      proof (cases current_session)
        case (Inherited name)
        with Some ch later show ?thesis
          by (simp add: sendMessage_def store_ok_def caught_def)
      next
        case (Session cs)
        define um where "um = \<lparr>cm_role = User, cm_content = message, cm_timestamp = now,
           cm_character_name = Some ch\<rparr>"
        define us where "us = cs\<lparr>messages := messages cs @ [um], lastActivity := now'\<rparr>"
        have "session_ok t cs" using assms(1) Some Session by (simp add: store_ok_def)
        then have "session_ok now us"
          by (rule session_ok_append [OF _ assms(2), of _ um]) (simp_all add: um_def us_def)
        then have us: "session_ok now' us" using assms(3) by (rule session_ok_mono)
        have cs: "session_ok now' cs" using later Some Session by (simp add: store_ok_def)
        show ?thesis
        proof (cases stream_failure)
          case None
          have "snd (sendMessage message stream_failure now now' s) =
              \<lparr>chat = (chat s)\<lparr>isTyping := True, streamingContent := '''', statusMessage := '''',
                  error := None,
                  sessions := (sessions (chat s))(property_key (characterId cs) \<mapsto> us),
                  currentSession := Some (Session us)\<rparr>,
               streams = streams s @ [\<lparr>captured_currentSession = cs,
                 captured_currentCharacter = ch, captured_updatedSession = us\<rparr>]\<rparr>"
            using Some ch Session None by (simp add: sendMessage_def Let_def um_def us_def)
          with later us cs show ?thesis by (auto simp: store_ok_def)
        next
          case (Some thrown)
          have "snd (sendMessage message stream_failure now now' s) =
              s\<lparr>chat := (chat s)\<lparr>isTyping := False, streamingContent := '''',
                  statusMessage := '''', error := Some thrown,
                  sessions := (sessions (chat s))(property_key (characterId cs) \<mapsto> us),
                  currentSession := Some (Session us)\<rparr>\<rparr>"
            using \<open>currentSession (chat s) = Some current_session\<close> ch Session Some
            by (simp add: sendMessage_def Let_def um_def us_def caught_def)
          with later us show ?thesis by (auto simp: store_ok_def)
        qed
      qed
    qed
  qed
qed

lemma onDone_ok:
  assumes "store_ok t s" "t \<le> now" "now \<le> now'" "i < length (streams s)"
  shows "store_ok now' (s\<lparr>chat := onDone (streams s ! i) d now now' (chat s)\<rparr>)"
proof -
  let ?c = "streams s ! i"
  have "session_ok t (captured_updatedSession ?c)"
    using assms(1,4) by (simp add: store_ok_def)
  then have "session_ok now
     ((captured_updatedSession ?c)\<lparr>messages := messages (captured_updatedSession ?c) @
        [\<lparr>cm_role = Assistant, cm_content = streamingContent (chat s), cm_timestamp = now,
          cm_character_name = Some (captured_currentCharacter ?c)\<rparr>]\<rparr>)"
    by (rule session_ok_append [OF _ assms(2)]) simp_all
  then have fs: "session_ok now'
     ((captured_updatedSession ?c)\<lparr>messages := messages (captured_updatedSession ?c) @
        [\<lparr>cm_role = Assistant, cm_content = streamingContent (chat s), cm_timestamp = now,
          cm_character_name = Some (captured_currentCharacter ?c)\<rparr>]\<rparr>)"
    using assms(3) by (rule session_ok_mono)
  have "store_ok now' s" using assms(1-3) by (auto intro: store_ok_mono)
  with fs show ?thesis
    by (auto simp: store_ok_def onDone_def Let_def session_ok_def)
qed

lemma clearCurrentChat_ok:
  assumes "store_ok t s" "t \<le> now"
  shows "store_ok now (s\<lparr>chat := clearCurrentChat now (chat s)\<rparr>)"
proof -
  have "store_ok now s" using assms by (rule store_ok_mono)
  then show ?thesis
    by (auto simp: store_ok_def clearCurrentChat_def Let_def session_ok_empty
        split: option.splits session_value.splits)
qed

lemma step_ok:
  assumes "store_ok t s" "sorted (t # event_times e)"
  shows "store_ok (last (t # event_times e)) (step e s)"
proof (cases e)
  case (SetCharacter k new_id now)
  with assms show ?thesis by (simp add: setCharacter_ok)
next
  case (LoadCharacterSession k new_id now)
  with assms show ?thesis by (simp add: loadCharacterSession_ok)
next
  case (SendMessage message stream_failure now now')
  with assms show ?thesis by (simp add: sendMessage_ok)
next
  case (Done i d now now')
  show ?thesis
  proof (cases "i < length (streams s)")
    case True
    with assms Done show ?thesis by (simp add: onDone_ok)
  next
    case False
    have "store_ok now' s" using assms Done by (auto intro: store_ok_mono)
    with False Done show ?thesis by simp
  qed
next
  case (ClearCurrentChat now)
  with assms show ?thesis by (simp add: clearCurrentChat_ok)
next
  case (Chunk i chunk)
  with assms show ?thesis by (simp add: store_ok_def onChunk_def)
next
  case (Status i status)
  with assms show ?thesis by (simp add: store_ok_def onStatus_def)
next
  case (StreamError i)
  with assms show ?thesis by (simp add: store_ok_def onError_def)
next
  case (SetError e')
  with assms show ?thesis by (simp add: store_ok_def setError_def)
next
  case ClearError
  with assms show ?thesis by (simp add: store_ok_def clearError_def)
next
  case Reload
  with assms show ?thesis by (simp add: store_ok_def init_store_def)
qed

lemma run_ok:
  "store_ok t s \<Longrightarrow> clock_monotone t evs \<Longrightarrow> store_ok (clock_after t evs) (run evs s)"
proof (induction evs arbitrary: t s)
  case Nil
  then show ?case by simp
next
  case (Cons e evs)
  from Cons.prems have "store_ok (last (t # event_times e)) (step e s)"
    by (intro step_ok) simp_all
  with Cons.prems show ?case
    using Cons.IH [of "last (t # event_times e)" "step e s"] by simp
qed

lemmas chat_defs = batman_chat_def clock_set_back_chat_def constructor_chat_def batman_done_def
  init_store_def setCharacter_def loadCharacterSession_def get_property_def property_key_def
  object_prototype_properties_def sendMessage_def caught_def onChunk_def onDone_def
  or_string_def or_number_def Let_def

text \<open>
  A character whose name is a property of \<open>Object.prototype\<close> never gets a session: the
  inherited value becomes the current session, and \<open>sendMessage\<close> throws and appends
  nothing.
\<close>

lemma constructor_session_never_created:
  "sessions (chat (run constructor_chat init_store)) = Map.empty
   \<and> currentSession (chat (run constructor_chat init_store)) = Some (Inherited ''constructor'')
   \<and> error (chat (run constructor_chat init_store)) = Some not_iterable
   \<and> streams (run constructor_chat init_store) = []"
  by (simp add: chat_defs)

text \<open>
  C8 as stated fails: the store stamps each message with the reading of the wall clock
  and never compares timestamps.  When the clock is set back between the user's message
  (sent at 5000) and the end of the answer (at 1000), the session holds the two messages
  in the order of their arrival with the timestamps 5000 and 1000.
\<close>

theorem clock_set_back_breaks_timestamp_order:
  "map_option (map cm_timestamp \<circ> messages)
       (sessions (chat (run clock_set_back_chat init_store)) ''Batman'') = Some [5000, 1000]
   \<and> map_option (map cm_role \<circ> messages)
       (sessions (chat (run clock_set_back_chat init_store)) ''Batman'') = Some [User, Assistant]
   \<and> \<not> sorted [5000, 1000 :: int]
   \<and> \<not> clock_monotone 0 clock_set_back_chat"
  by (simp add: chat_defs)

text \<open>
  C8, amended.  Along every run of the store during which the readings of the clock never
  decrease, the messages of every session are in non-decreasing timestamp order.  Every
  append puts the new message at the end, after the messages that were there, which stay
  in their order, and with a timestamp not smaller than any of theirs: \<open>sendMessage\<close>
  appends the user message to the current session (also when \<open>api.streamChat\<close> then
  throws), and the \<open>done\<close> callback of a stream appends the assistant message to the
  session its \<open>sendMessage\<close> had built.  When the current session is a value inherited
  from \<open>Object.prototype\<close>, \<open>sendMessage\<close> throws and no session changes.
\<close>

theorem messages_ordered_by_timestamp:
  assumes "clock_monotone t0 evs"
  shows "(\<forall>k cs. sessions (chat (run evs init_store)) k = Some cs
            \<longrightarrow> sorted (map cm_timestamp (messages cs)))
    \<and> (\<forall>cs. currentSession (chat (run evs init_store)) = Some (Session cs)
            \<longrightarrow> sorted (map cm_timestamp (messages cs)))
    \<and> (\<forall>cs ch. currentSession (chat (run evs init_store)) = Some (Session cs)
            \<and> currentCharacter (chat (run evs init_store)) = Some ch
            \<and> clock_after t0 evs \<le> now
          \<longrightarrow> (\<exists>cs'. fst (sendMessage message stream_failure now now' (run evs init_store))
                        = stream_failure
                 \<and> sessions (chat (snd (sendMessage message stream_failure now now'
                        (run evs init_store)))) (property_key (characterId cs)) = Some cs'
                 \<and> currentSession (chat (snd (sendMessage message stream_failure now now'
                        (run evs init_store)))) = Some (Session cs')
                 \<and> messages cs' = messages cs @
                      [\<lparr>cm_role = User, cm_content = message, cm_timestamp = now,
                        cm_character_name = Some ch\<rparr>]
                 \<and> (\<forall>m \<in> set (messages cs). cm_timestamp m \<le> now)))
    \<and> (\<forall>name ch. currentSession (chat (run evs init_store)) = Some (Inherited name)
            \<and> currentCharacter (chat (run evs init_store)) = Some ch
          \<longrightarrow> fst (sendMessage message stream_failure now now' (run evs init_store))
                 = Some not_iterable
              \<and> sessions (chat (snd (sendMessage message stream_failure now now'
                     (run evs init_store)))) = sessions (chat (run evs init_store))
              \<and> currentSession (chat (snd (sendMessage message stream_failure now now'
                     (run evs init_store)))) = Some (Inherited name))
    \<and> (i < length (streams (run evs init_store)) \<and> clock_after t0 evs \<le> now
          \<longrightarrow> (\<exists>cs'. sessions (chat (step (Done i d now now') (run evs init_store)))
                        (property_key (characterId
                           (captured_currentSession (streams (run evs init_store) ! i))))
                      = Some cs'
                 \<and> currentSession (chat (step (Done i d now now') (run evs init_store)))
                      = Some (Session cs')
                 \<and> messages cs' =
                      messages (captured_updatedSession (streams (run evs init_store) ! i)) @
                      [\<lparr>cm_role = Assistant,
                        cm_content = streamingContent (chat (run evs init_store)),
                        cm_timestamp = now,
                        cm_character_name =
                          Some (captured_currentCharacter (streams (run evs init_store) ! i))\<rparr>]
                 \<and> (\<forall>m \<in> set (messages (captured_updatedSession
                             (streams (run evs init_store) ! i))).
                       cm_timestamp m \<le> now)))"
proof -
  let ?s = "run evs init_store"
  have ok: "store_ok (clock_after t0 evs) ?s"
    using store_ok_init assms by (rule run_ok)
  have a: "\<forall>k cs. sessions (chat ?s) k = Some cs \<longrightarrow> sorted (map cm_timestamp (messages cs))"
    using ok by (simp add: store_ok_def session_ok_def)
  have a': "\<forall>cs. currentSession (chat ?s) = Some (Session cs)
      \<longrightarrow> sorted (map cm_timestamp (messages cs))"
    using ok by (simp add: store_ok_def session_ok_def)
  have b: "\<forall>cs ch. currentSession (chat ?s) = Some (Session cs)
            \<and> currentCharacter (chat ?s) = Some ch
            \<and> clock_after t0 evs \<le> now
          \<longrightarrow> (\<exists>cs'. fst (sendMessage message stream_failure now now' ?s) = stream_failure
                 \<and> sessions (chat (snd (sendMessage message stream_failure now now' ?s)))
                      (property_key (characterId cs)) = Some cs'
                 \<and> currentSession (chat (snd (sendMessage message stream_failure now now' ?s)))
                      = Some (Session cs')
                 \<and> messages cs' = messages cs @
                      [\<lparr>cm_role = User, cm_content = message, cm_timestamp = now,
                        cm_character_name = Some ch\<rparr>]
                 \<and> (\<forall>m \<in> set (messages cs). cm_timestamp m \<le> now))"
    using ok
    by (cases stream_failure)
      (fastforce simp: store_ok_def session_ok_def sendMessage_def caught_def Let_def)+
  have b': "\<forall>name ch. currentSession (chat ?s) = Some (Inherited name)
            \<and> currentCharacter (chat ?s) = Some ch
          \<longrightarrow> fst (sendMessage message stream_failure now now' ?s) = Some not_iterable
              \<and> sessions (chat (snd (sendMessage message stream_failure now now' ?s)))
                   = sessions (chat ?s)
              \<and> currentSession (chat (snd (sendMessage message stream_failure now now' ?s)))
                   = Some (Inherited name)"
    by (simp add: sendMessage_def caught_def)
  have c: "i < length (streams ?s) \<and> clock_after t0 evs \<le> now
          \<longrightarrow> (\<exists>cs'. sessions (chat (step (Done i d now now') ?s))
                        (property_key (characterId (captured_currentSession (streams ?s ! i))))
                      = Some cs'
                 \<and> currentSession (chat (step (Done i d now now') ?s)) = Some (Session cs')
                 \<and> messages cs' = messages (captured_updatedSession (streams ?s ! i)) @
                      [\<lparr>cm_role = Assistant, cm_content = streamingContent (chat ?s),
                        cm_timestamp = now,
                        cm_character_name = Some (captured_currentCharacter (streams ?s ! i))\<rparr>]
                 \<and> (\<forall>m \<in> set (messages (captured_updatedSession (streams ?s ! i))).
                       cm_timestamp m \<le> now))"
    using ok by (fastforce simp: store_ok_def session_ok_def onDone_def Let_def)
  from a a' b b' c show ?thesis by blast
qed

lemma batman_chat_run: "run batman_chat init_store = batman_store"
  by (simp add: chat_defs batman_store_def)

lemma batman_chat_clock: "clock_monotone 0 batman_chat \<and> clock_after 0 batman_chat = 3001"
  by (simp add: batman_chat_def)

theorem messages_ordered_by_timestamp_witness:
  "clock_monotone 0 batman_chat
   \<and> clock_after 0 batman_chat \<le> 4000
   \<and> 0 < length (streams (run batman_chat init_store))
   \<and> map_option (map cm_timestamp \<circ> messages)
         (sessions (chat (run batman_chat init_store)) ''Batman'') = Some [2000, 3000]
   \<and> sorted [2000, 3000 :: int]
   \<and> (\<exists>cs. currentSession (chat (step (SendMessage ''And Robin?'' None 4000 4001)
                (run batman_chat init_store))) = Some (Session cs)
          \<and> map cm_timestamp (messages cs) = [2000, 3000, 4000])
   \<and> (\<exists>cs. currentSession (chat (step (Done 0 batman_done 4000 4001)
                (run batman_chat init_store))) = Some (Session cs)
          \<and> map cm_timestamp (messages cs) = [2000, 4000])"
  using messages_ordered_by_timestamp
    [of 0 batman_chat 4000 "''And Robin?''" None 4001 0 batman_done]
    batman_chat_clock
  by (simp add: batman_chat_run batman_store_def batman_done_def sendMessage_def onDone_def
      property_key_def or_string_def or_number_def Let_def)

end
